theory Spec2Isabelle
  imports Main "HOL-Library.Word" "HOL-Library.Multiset"
begin

section \<open>The SQLite backend of the ZRTP cache (zrtp/zrtpCacheSqliteBackend.cpp)\<close>

text \<open>
  The backend keeps three tables (\<open>zrtpIdOwn\<close>, \<open>zrtpIdRemote\<close>, \<open>zrtpNames\<close>) in an
  SQLite database and exposes C functions that return an \<open>int\<close> result code, fill output
  parameters and format a diagnostic into \<open>errString\<close>. The embedding below follows the
  functions one by one: the database is an explicit state that every function takes and
  returns, an output parameter is an argument that comes back updated, and the SQL text of
  each statement is rendered as the list operation the engine performs for it.
\<close>

type_synonym byte = "8 word"

subsection \<open>Constants\<close>

text \<open>
  \<open>IDENTIFIER_LEN\<close> and \<open>RS_LENGTH\<close> are declared in \<open>libzrtpcpp/zrtpCacheDbBackend.h\<close>.
\<close>

definition IDENTIFIER_LEN :: nat where
  \<comment> \<open>Modelled from the spec: the header that declares the length is not among the sources;
      the spec fixes identifiers at 12 bytes.\<close>
  "IDENTIFIER_LEN = 12"

definition RS_LENGTH :: nat where
  \<comment> \<open>Modelled from the spec: the header that declares the length is not among the sources;
      the spec fixes every retained secret and the MITM key at 32 bytes.\<close>
  "RS_LENGTH = 32"

text \<open>Result codes of the engine that the functions test or return.\<close>

definition SQLITE_OK :: int where "SQLITE_OK = 0"
definition SQLITE_ERROR :: int where "SQLITE_ERROR = 1"
definition SQLITE_LOCKED :: int where "SQLITE_LOCKED = 6"
definition SQLITE_ROW :: int where "SQLITE_ROW = 100"
definition SQLITE_DONE :: int where "SQLITE_DONE = 101"


definition defaultAccountString :: string where
  "defaultAccountString = ''_STANDARD_''"

subsection \<open>Base64 transcoding of identifiers\<close>

text \<open>
  \<open>b64Encode\<close> and \<open>b64Decode\<close> hand their arguments to \<open>Botan::base64_encode\<close> and
  \<open>Botan::base64_decode\<close>, which live in the Botan amalgamation of the repository.
\<close>

definition b64_alphabet :: string where
  "b64_alphabet = ''ABCDEFGHIJKLMNOPQRSTUVWXYZabcdefghijklmnopqrstuvwxyz0123456789+/''"

definition b64_char :: "nat \<Rightarrow> char" where
  "b64_char i = b64_alphabet ! i"

fun index_of :: "'a \<Rightarrow> 'a list \<Rightarrow> nat option" where
  "index_of x [] = None"
| "index_of x (y # ys) = (if x = y then Some 0 else map_option Suc (index_of x ys))"

definition b64_value :: "char \<Rightarrow> nat option" where
  "b64_value c = index_of c b64_alphabet"

definition octet :: "nat \<Rightarrow> byte" where
  "octet n = of_nat n"

definition pad_char :: char where
  "pad_char = CHR ''=''"

fun base64_encode :: "byte list \<Rightarrow> string" where
  \<comment> \<open>Modelled from the spec: \<open>Botan::base64_encode\<close> with \<open>final_inputs = true\<close> is missing
      from the sources. The spec asks for a deterministic, reversible, printable text form
      of the bytes; this is the standard base64 transcoding: three bytes become four
      characters of the alphabet, a shorter last group is padded with \<open>=\<close>.\<close>
  "base64_encode (a # b # c # rest) =
     [b64_char (unat a div 4),
      b64_char ((unat a mod 4) * 16 + unat b div 16),
      b64_char ((unat b mod 16) * 4 + unat c div 64),
      b64_char (unat c mod 64)] @ base64_encode rest"
| "base64_encode [a, b] =
     [b64_char (unat a div 4),
      b64_char ((unat a mod 4) * 16 + unat b div 16),
      b64_char ((unat b mod 16) * 4),
      pad_char]"
| "base64_encode [a] =
     [b64_char (unat a div 4),
      b64_char ((unat a mod 4) * 16),
      pad_char,
      pad_char]"
| "base64_encode [] = []"

fun base64_decode :: "string \<Rightarrow> byte list option" where
  \<comment> \<open>Modelled from the spec: \<open>Botan::base64_decode\<close> is missing from the sources. The spec
      gives \<open>decode(text) -> bytes | Error\<close>; \<open>None\<close> is the error (Botan throws). Four
      characters become three bytes; \<open>=\<close> is accepted only as the padding of the last
      group.\<close>
  "base64_decode [] = Some []"
| "base64_decode (c1 # c2 # c3 # c4 # rest) =
     (case b64_value c1 of None \<Rightarrow> None | Some v1 \<Rightarrow>
      case b64_value c2 of None \<Rightarrow> None | Some v2 \<Rightarrow>
        if rest = [] \<and> c3 = pad_char \<and> c4 = pad_char
        then Some [octet (v1 * 4 + v2 div 16)]
        else
          case b64_value c3 of None \<Rightarrow> None | Some v3 \<Rightarrow>
            if rest = [] \<and> c4 = pad_char
            then Some [octet (v1 * 4 + v2 div 16), octet ((v2 mod 16) * 16 + v3 div 4)]
            else
              case b64_value c4 of None \<Rightarrow> None | Some v4 \<Rightarrow>
                map_option
                  (\<lambda>bs. octet (v1 * 4 + v2 div 16) #
                        octet ((v2 mod 16) * 16 + v3 div 4) #
                        octet ((v3 mod 4) * 64 + v4) # bs)
                  (base64_decode rest))"
| "base64_decode _ = None"

definition b64Encode :: "byte list \<Rightarrow> nat \<Rightarrow> string" where
  \<comment> \<open>The text written to \<open>b64Data\<close>; its length is the \<open>int\<close> the function returns. The
      callers' buffers hold \<open>2 * IDENTIFIER_LEN\<close> zero bytes, so the 16 characters of an
      identifier are also what \<open>strlen\<close> measures there.\<close>
  "b64Encode binData binLength = base64_encode (take binLength binData)"

definition b64Decode :: "string \<Rightarrow> nat \<Rightarrow> byte list option" where
  \<comment> \<open>The bytes written to \<open>binData\<close>; \<open>None\<close> when Botan throws.\<close>
  "b64Decode b64Data b64length = base64_decode (take b64length b64Data)"


subsection \<open>Decimal text, as the engine prints and reads integers\<close>

definition digit_char :: "nat \<Rightarrow> char" where
  "digit_char d = char_of (48 + d)"

definition digit_value :: "char \<Rightarrow> nat" where
  "digit_value c = of_char c - 48"

function nat_text :: "nat \<Rightarrow> string" where
  "nat_text n = (if n < 10 then [digit_char n] else nat_text (n div 10) @ [digit_char (n mod 10)])"
  by pat_completeness auto
termination
  by (relation "measure id") auto

declare nat_text.simps [simp del]

definition int_text :: "int \<Rightarrow> string" where
  \<comment> \<open>What the engine's \<open>%lld\<close> prints.\<close>
  "int_text i = (if i < 0 then CHR ''-'' # nat_text (nat (- i)) else nat_text (nat i))"

definition text_nat :: "string \<Rightarrow> nat" where
  "text_nat s = foldl (\<lambda>acc c. acc * 10 + digit_value c) 0 s"

definition text_int :: "string \<Rightarrow> int" where
  \<comment> \<open>The integer the engine reads from a text of an optional sign and digits.\<close>
  "text_int s = (case s of [] \<Rightarrow> 0
     | c # ds \<Rightarrow> if c = CHR ''-'' then - int (text_nat ds) else int (text_nat s))"

subsection \<open>The storage engine, as far as the SQL statements of the file use it\<close>

text \<open>
  A column of declared type \<open>TIMESTAMP\<close> has numeric affinity: it holds \<open>NULL\<close> or an
  integer, modelled as \<open>int option\<close>. \<open>CHAR\<close> and \<open>VARCHAR\<close> columns hold text,
  \<open>INTEGER\<close> columns integers, \<open>BLOB\<close> columns bytes. A table is the list of its rows
  in insertion order; a table that does not exist is \<open>None\<close>. Next to the tables the
  connection counts its active statements: those that have delivered a row and are neither
  finished nor finalized. The only such statement that outlives a call of this file is the
  one that \<open>readNextZidRecord\<close> steps.
\<close>

record zrtpIdOwn_row =
  own_localZid :: string
  own_type :: int
  own_accountInfo :: string

record zrtpIdRemote_row =
  rem_remoteZid :: string
  rem_localZid :: string
  rem_flags :: int
  rem_rs1 :: "byte list"
  rem_rs1LastUsed :: "int option"
  rem_rs1TimeToLive :: "int option"
  rem_rs2 :: "byte list"
  rem_rs2LastUsed :: "int option"
  rem_rs2TimeToLive :: "int option"
  rem_mitmKey :: "byte list"
  rem_mitmLastUsed :: "int option"
  rem_secureSince :: "int option"
  rem_preshCounter :: int

record zrtpNames_row =
  nam_remoteZid :: string
  nam_localZid :: string
  nam_flags :: int
  nam_lastUpdate :: "int option"
  nam_accountInfo :: string
  nam_name :: string

record sqlite3_db =
  zrtpIdOwn :: "zrtpIdOwn_row list option"
  zrtpIdRemote :: "zrtpIdRemote_row list option"
  zrtpNames :: "zrtpNames_row list option"
  active_statements :: nat

definition in_date_range :: "int \<Rightarrow> bool" where
  \<comment> \<open>The seconds since 1970 that SQLite's date functions accept with the
      \<open>unixepoch\<close> modifier: from Julian day 0 up to 9999-12-31 23:59:59. Outside of it
      they return \<open>NULL\<close>.\<close>
  "in_date_range n \<longleftrightarrow> - 210866760000 \<le> n \<and> n \<le> 253402300799"

definition strftime_s_unixepoch :: "int option \<Rightarrow> string option" where
  \<comment> \<open>\<open>strftime('%s', X, 'unixepoch')\<close> for \<open>X\<close> an integer or \<open>NULL\<close>: the seconds as
      decimal text, and \<open>NULL\<close> for \<open>NULL\<close> and for a value outside the engine's dates.\<close>
  "strftime_s_unixepoch x =
     (case x of None \<Rightarrow> None
      | Some n \<Rightarrow> if in_date_range n then Some (int_text n) else None)"

definition numeric_affinity :: "string option \<Rightarrow> int option" where
  \<comment> \<open>Storing the text of an integer in a \<open>TIMESTAMP\<close> column stores the integer.\<close>
  "numeric_affinity v = map_option text_int v"

definition bind_int :: "32 word \<Rightarrow> int" where
  "bind_int w = sint w"

definition bind_int64 :: "64 word \<Rightarrow> int" where
  "bind_int64 w = sint w"

definition sqlite3_column_int :: "int \<Rightarrow> 32 word" where
  "sqlite3_column_int v = word_of_int v"

definition sqlite3_column_int64 :: "string option \<Rightarrow> 64 word" where
  \<comment> \<open>Of a text result column: the integer it spells; of \<open>NULL\<close>: 0.\<close>
  "sqlite3_column_int64 v = (case v of None \<Rightarrow> 0 | Some s \<Rightarrow> word_of_int (text_int s))"

definition no_such_table :: "string \<Rightarrow> string" where
  "no_such_table t = ''no such table: '' @ t"

definition table_already_exists :: "string \<Rightarrow> string" where
  "table_already_exists t = ''table '' @ t @ '' already exists''"

definition drop_table :: "nat \<Rightarrow> 'r list option \<Rightarrow> int \<times> 'r list option" where
  \<comment> \<open>\<open>DROP TABLE\<close> on a connection with the given number of active statements: the
      engine refuses to drop a table while a statement is active ("database table is
      locked"), and there is nothing to drop when the table does not exist.\<close>
  "drop_table active t =
     (case t of
        None \<Rightarrow> (SQLITE_ERROR, None)
      | Some rows \<Rightarrow> if 0 < active then (SQLITE_LOCKED, Some rows) else (SQLITE_DONE, None))"

definition create_table :: "'r list option \<Rightarrow> int \<times> 'r list option" where
  "create_table t =
     (case t of None \<Rightarrow> (SQLITE_DONE, Some []) | Some rows \<Rightarrow> (SQLITE_ERROR, Some rows))"

fun sql_le :: "int option \<Rightarrow> int option \<Rightarrow> bool" where
  \<comment> \<open>The engine's order on the values of a \<open>TIMESTAMP\<close> column: \<open>NULL\<close> first.\<close>
  "sql_le None y = True"
| "sql_le (Some a) None = False"
| "sql_le (Some a) (Some b) = (a \<le> b)"

fun insert_desc :: "zrtpIdRemote_row \<Rightarrow> zrtpIdRemote_row list \<Rightarrow> zrtpIdRemote_row list" where
  "insert_desc row [] = [row]"
| "insert_desc row (y # ys) =
     (if sql_le (rem_secureSince y) (rem_secureSince row) then row # y # ys
      else y # insert_desc row ys)"

definition order_by_secureSince_desc :: "zrtpIdRemote_row list \<Rightarrow> zrtpIdRemote_row list" where
  \<comment> \<open>\<open>ORDER BY secureSince DESC\<close>; rows with equal keys stay in table order here (the
      engine promises no order among them).\<close>
  "order_by_secureSince_desc rows = foldr insert_desc rows []"

text \<open>
  The random number generator \<open>randomZRTP\<close> is an external collaborator.
\<close>

type_synonym rng = "nat \<Rightarrow> byte"

definition randomZRTP :: "rng \<Rightarrow> nat \<Rightarrow> byte list \<times> rng" where
  \<comment> \<open>Modelled from the spec: the generator is not among the sources. It is an endless
      supply of bytes, of which a call takes the next \<open>n\<close>.\<close>
  "randomZRTP g n = (map g [0..<n], \<lambda>i. g (i + n))"

subsection \<open>Records handed to and from the callers\<close>

text \<open>
  \<open>remoteZidRecord_t\<close> and \<open>zidNameRecord_t\<close> are declared in the header; the fields are
  the ones the functions touch, integers have the width of the engine call that binds them
  (\<open>sqlite3_bind_int\<close>: 32 bits, \<open>sqlite3_bind_int64\<close>: 64 bits).
\<close>

record remoteZidRecord =
  identifier_zid :: "byte list"
  flags :: "32 word"
  rs1 :: "byte list"
  rs1LastUse :: "64 word"
  rs1Ttl :: "64 word"
  rs2 :: "byte list"
  rs2LastUse :: "64 word"
  rs2Ttl :: "64 word"
  mitmKey :: "byte list"
  mitmLastUse :: "64 word"
  secureSince :: "64 word"
  preshCounter :: "32 word"

record zidNameRecord =
  name :: "string option"
  nameLength :: "32 word"
  flagsN :: "32 word"

datatype errtext =
    SQLiteError string
  | MoreThanOneRemoteZid int
  | MoreThanOneLocalZid int string
  | MoreThanOneZidName int

text \<open>
  \<open>errtext\<close> is what a function formats into \<open>errString\<close> when the caller passes a
  buffer: \<open>SQLiteError m\<close> is the \<open>ERRMSG\<close> line around the engine's message \<open>m\<close>, the
  other three are the "cache inconsistent" lines with the count (and the account) they
  print.
\<close>

definition write_bytes :: "byte list \<Rightarrow> byte list \<Rightarrow> byte list" where
  \<comment> \<open>Writing \<open>data\<close> at the start of the caller's buffer.\<close>
  "write_bytes buf data = data @ drop (length data) buf"

subsection \<open>Schema: createTables, initializeRemoteTables, openCache, clearCache\<close>

definition initializeRemoteTables :: "sqlite3_db \<Rightarrow> int \<times> sqlite3_db \<times> errtext option" where
  "initializeRemoteTables db =
     (let db1 = db\<lparr>zrtpIdRemote := snd (drop_table (active_statements db) (zrtpIdRemote db))\<rparr>;
          db2 = db1\<lparr>zrtpNames := snd (drop_table (active_statements db1) (zrtpNames db1))\<rparr>;
          (rc, t) = create_table (zrtpIdRemote db2)
      in if rc \<noteq> SQLITE_DONE
         then (rc, db2, Some (SQLiteError (table_already_exists ''zrtpIdRemote'')))
         else
           let db3 = db2\<lparr>zrtpIdRemote := t\<rparr>;
               (rc, t) = create_table (zrtpNames db3)
           in if rc \<noteq> SQLITE_DONE
              then (rc, db3, Some (SQLiteError (table_already_exists ''zrtpNames'')))
              else (0, db3\<lparr>zrtpNames := t\<rparr>, None))"

definition createTables :: "sqlite3_db \<Rightarrow> int \<times> sqlite3_db \<times> errtext option" where
  "createTables db =
     (let (rc, t) = create_table (zrtpIdOwn db)
      in if rc \<noteq> SQLITE_DONE
         then (rc, db, Some (SQLiteError (table_already_exists ''zrtpIdOwn'')))
         else initializeRemoteTables (db\<lparr>zrtpIdOwn := t\<rparr>))"

definition openCache :: "sqlite3_db \<Rightarrow> int \<times> sqlite3_db \<times> errtext option" where
  \<comment> \<open>The argument is the content of the database file that \<open>name\<close> designates (a new
      file has no table); the connection that \<open>sqlite3_open_v2\<close> returns has no statement
      yet. \<open>lookupTables\<close> finds a row exactly when \<open>zrtpIdOwn\<close> exists.\<close>
  "openCache db =
     (let db = db\<lparr>active_statements := 0\<rparr>;
          found = (if zrtpIdOwn db \<noteq> None then 1 else 0 :: int)
      in if found = 0
         then (let (rc, db', msg) = createTables db
               in if rc \<noteq> 0 then (rc, db', msg) else (SQLITE_OK, db', msg))
         else (SQLITE_OK, db, None))"

definition clearCache :: "sqlite3_db \<Rightarrow> int \<times> sqlite3_db \<times> errtext option" where
  "clearCache db =
     (let db1 = db\<lparr>zrtpIdOwn := snd (drop_table (active_statements db) (zrtpIdOwn db))\<rparr>;
          (rc, db2, msg) = createTables db1
      in if rc \<noteq> 0 then (rc, db2, msg) else (SQLITE_OK, db2, msg))"

subsection \<open>Peer-secret records: insert, update, read\<close>

definition remote_values :: "string \<Rightarrow> string \<Rightarrow> remoteZidRecord \<Rightarrow> zrtpIdRemote_row" where
  \<comment> \<open>The row that the \<open>VALUES\<close> of \<open>insertZrtpIdRemote\<close> and the \<open>SET\<close> of
      \<open>updateZrtpIdRemote\<close> build from the bound parameters \<open>?1\<close> to \<open>?13\<close>.\<close>
  "remote_values b64RemoteZid b64LocalZid remZid =
     \<lparr>rem_remoteZid = b64RemoteZid,
      rem_localZid = b64LocalZid,
      rem_flags = bind_int (flags remZid),
      rem_rs1 = take RS_LENGTH (rs1 remZid),
      rem_rs1LastUsed = numeric_affinity (strftime_s_unixepoch (Some (bind_int64 (rs1LastUse remZid)))),
      rem_rs1TimeToLive = numeric_affinity (strftime_s_unixepoch (Some (bind_int64 (rs1Ttl remZid)))),
      rem_rs2 = take RS_LENGTH (rs2 remZid),
      rem_rs2LastUsed = numeric_affinity (strftime_s_unixepoch (Some (bind_int64 (rs2LastUse remZid)))),
      rem_rs2TimeToLive = numeric_affinity (strftime_s_unixepoch (Some (bind_int64 (rs2Ttl remZid)))),
      rem_mitmKey = take RS_LENGTH (mitmKey remZid),
      rem_mitmLastUsed = numeric_affinity (strftime_s_unixepoch (Some (bind_int64 (mitmLastUse remZid)))),
      rem_secureSince = numeric_affinity (strftime_s_unixepoch (Some (bind_int64 (secureSince remZid)))),
      rem_preshCounter = bind_int (preshCounter remZid)\<rparr>"

definition remote_key :: "string \<Rightarrow> string \<Rightarrow> zrtpIdRemote_row \<Rightarrow> bool" where
  \<comment> \<open>\<open>WHERE remoteZid=? AND localZid=?\<close>\<close>
  "remote_key b64RemoteZid b64LocalZid row \<longleftrightarrow>
     rem_remoteZid row = b64RemoteZid \<and> rem_localZid row = b64LocalZid"

definition selectZrtpIdRemoteAll :: "string \<Rightarrow> string \<Rightarrow> zrtpIdRemote_row list \<Rightarrow> zrtpIdRemote_row list" where
  "selectZrtpIdRemoteAll b64RemoteZid b64LocalZid rows =
     filter (remote_key b64RemoteZid b64LocalZid) rows"

definition insertRemoteZidRecord ::
  "sqlite3_db \<Rightarrow> byte list \<Rightarrow> byte list \<Rightarrow> remoteZidRecord \<Rightarrow> int \<times> sqlite3_db \<times> errtext option" where
  "insertRemoteZidRecord db remoteZid localZid remZid =
     (let b64RemoteZid = b64Encode remoteZid IDENTIFIER_LEN;
          b64LocalZid = b64Encode localZid IDENTIFIER_LEN
      in case zrtpIdRemote db of
           None \<Rightarrow> (SQLITE_ERROR, db, Some (SQLiteError (no_such_table ''zrtpIdRemote'')))
         | Some rows \<Rightarrow>
             (SQLITE_OK,
              db\<lparr>zrtpIdRemote := Some (rows @ [remote_values b64RemoteZid b64LocalZid remZid])\<rparr>,
              None))"

definition updateRemoteZidRecord ::
  "sqlite3_db \<Rightarrow> byte list \<Rightarrow> byte list \<Rightarrow> remoteZidRecord \<Rightarrow> int \<times> sqlite3_db \<times> errtext option" where
  "updateRemoteZidRecord db remoteZid localZid remZid =
     (let b64RemoteZid = b64Encode remoteZid IDENTIFIER_LEN;
          b64LocalZid = b64Encode localZid IDENTIFIER_LEN
      in case zrtpIdRemote db of
           None \<Rightarrow> (SQLITE_ERROR, db, Some (SQLiteError (no_such_table ''zrtpIdRemote'')))
         | Some rows \<Rightarrow>
             (SQLITE_OK,
              db\<lparr>zrtpIdRemote := Some (map (\<lambda>row.
                   if remote_key b64RemoteZid b64LocalZid row
                   then remote_values (rem_remoteZid row) (rem_localZid row) remZid
                   else row) rows)\<rparr>,
              None))"

definition remote_columns :: "zrtpIdRemote_row \<Rightarrow> remoteZidRecord \<Rightarrow> remoteZidRecord" where
  \<comment> \<open>The assignments from result columns 0 to 10; the three arrays are overwritten
      whole by \<open>memcpy\<close> of \<open>RS_LENGTH\<close> bytes (every row that this file writes holds
      that many). The \<open>identifier\<close> member is not assigned.\<close>
  "remote_columns row remZid =
     remZid\<lparr>flags := sqlite3_column_int (rem_flags row),
            rs1 := take RS_LENGTH (rem_rs1 row),
            rs1LastUse := sqlite3_column_int64 (strftime_s_unixepoch (rem_rs1LastUsed row)),
            rs1Ttl := sqlite3_column_int64 (strftime_s_unixepoch (rem_rs1TimeToLive row)),
            rs2 := take RS_LENGTH (rem_rs2 row),
            rs2LastUse := sqlite3_column_int64 (strftime_s_unixepoch (rem_rs2LastUsed row)),
            rs2Ttl := sqlite3_column_int64 (strftime_s_unixepoch (rem_rs2TimeToLive row)),
            mitmKey := take RS_LENGTH (rem_mitmKey row),
            mitmLastUse := sqlite3_column_int64 (strftime_s_unixepoch (rem_mitmLastUsed row)),
            secureSince := sqlite3_column_int64 (strftime_s_unixepoch (rem_secureSince row)),
            preshCounter := sqlite3_column_int (rem_preshCounter row)\<rparr>"

fun readRemoteZidRecord_rows ::
  "zrtpIdRemote_row list \<Rightarrow> remoteZidRecord \<Rightarrow> int \<Rightarrow> remoteZidRecord \<times> int" where
  \<comment> \<open>The \<open>while\<close> loop over the rows that \<open>sqlite3_step\<close> delivers.\<close>
  "readRemoteZidRecord_rows [] remZid found = (remZid, found)"
| "readRemoteZidRecord_rows (row # rows) remZid found =
     readRemoteZidRecord_rows rows (remote_columns row remZid) (found + 1)"

definition readRemoteZidRecord ::
  "sqlite3_db \<Rightarrow> byte list \<Rightarrow> byte list \<Rightarrow> remoteZidRecord \<Rightarrow> int \<times> remoteZidRecord \<times> errtext option" where
  "readRemoteZidRecord db remoteZid localZid remZid =
     (let b64RemoteZid = b64Encode remoteZid IDENTIFIER_LEN;
          b64LocalZid = b64Encode localZid IDENTIFIER_LEN
      in case zrtpIdRemote db of
           None \<Rightarrow> (SQLITE_ERROR, remZid, Some (SQLiteError (no_such_table ''zrtpIdRemote'')))
         | Some rows \<Rightarrow>
             (let (remZid, found) =
                    readRemoteZidRecord_rows (selectZrtpIdRemoteAll b64RemoteZid b64LocalZid rows) remZid 0
              in if found = 0 then (SQLITE_OK, remZid\<lparr>flags := 0\<rparr>, None)
                 else if found > 1 then (1, remZid, Some (MoreThanOneRemoteZid found))
                 else (SQLITE_OK, remZid, None)))"

subsection \<open>The local identifier: readLocalZid\<close>





subsection \<open>Peer names: insert and update\<close>

definition names_key :: "string \<Rightarrow> string \<Rightarrow> string \<Rightarrow> zrtpNames_row \<Rightarrow> bool" where
  \<comment> \<open>\<open>WHERE remoteZid=?1 AND localZid=?2 AND accountInfo=?3\<close>\<close>
  "names_key b64RemoteZid b64LocalZid accountInfo row \<longleftrightarrow>
     nam_remoteZid row = b64RemoteZid \<and> nam_localZid row = b64LocalZid
       \<and> nam_accountInfo row = accountInfo"

definition insertZidNameRecord ::
  "sqlite3_db \<Rightarrow> 64 word \<Rightarrow> byte list \<Rightarrow> byte list \<Rightarrow> string option \<Rightarrow> zidNameRecord \<Rightarrow>
     int \<times> sqlite3_db \<times> errtext option" where
  \<comment> \<open>The second argument is what \<open>(int64_t)time(nullptr)\<close> returns during the call.\<close>
  "insertZidNameRecord db now remoteZid localZid accountInfo zidName =
     (let accountInfo = (case accountInfo of None \<Rightarrow> defaultAccountString | Some a \<Rightarrow> a);
          b64RemoteZid = b64Encode remoteZid IDENTIFIER_LEN;
          b64LocalZid = b64Encode localZid IDENTIFIER_LEN
      in case zrtpNames db of
           None \<Rightarrow> (SQLITE_ERROR, db, Some (SQLiteError (no_such_table ''zrtpNames'')))
         | Some rows \<Rightarrow>
             (SQLITE_OK,
              db\<lparr>zrtpNames := Some (rows @
                [\<lparr>nam_remoteZid = b64RemoteZid,
                  nam_localZid = b64LocalZid,
                  nam_flags = bind_int (flagsN zidName),
                  nam_lastUpdate = numeric_affinity (strftime_s_unixepoch (Some (bind_int64 now))),
                  nam_accountInfo = accountInfo,
                  nam_name = (case name zidName of Some n \<Rightarrow> n | None \<Rightarrow> ''_NO_NAME_'')\<rparr>])\<rparr>,
              None))"

definition updateZidNameRecord ::
  "sqlite3_db \<Rightarrow> 64 word \<Rightarrow> byte list \<Rightarrow> byte list \<Rightarrow> string option \<Rightarrow> zidNameRecord \<Rightarrow>
     int \<times> sqlite3_db \<times> errtext option" where
  "updateZidNameRecord db now remoteZid localZid accountInfo zidName =
     (let accountInfo = (case accountInfo of None \<Rightarrow> defaultAccountString | Some a \<Rightarrow> a);
          b64RemoteZid = b64Encode remoteZid IDENTIFIER_LEN;
          b64LocalZid = b64Encode localZid IDENTIFIER_LEN
      in case zrtpNames db of
           None \<Rightarrow> (SQLITE_ERROR, db, Some (SQLiteError (no_such_table ''zrtpNames'')))
         | Some rows \<Rightarrow>
             (SQLITE_OK,
              db\<lparr>zrtpNames := Some (map (\<lambda>row.
                   if names_key b64RemoteZid b64LocalZid accountInfo row
                   then row\<lparr>nam_flags := bind_int (flagsN zidName),
                            nam_lastUpdate :=
                              numeric_affinity (strftime_s_unixepoch (Some (bind_int64 now))),
                            nam_name := (case name zidName of Some n \<Rightarrow> n | None \<Rightarrow> ''_NO_NAME_'')\<rparr>
                   else row) rows)\<rparr>,
              None))"

subsection \<open>Enumeration: prepareReadAllZid, readNextZidRecord\<close>

datatype stmt = Prepared | Stepping "zrtpIdRemote_row list"

text \<open>
  A statement over \<open>selectZrtpIdRemoteAllNoCondition\<close> is \<open>Prepared\<close> until its first
  step, which sorts the table as it is then; afterwards it holds the rows still to come.
  From its first row on it is one of the active statements of the connection, until a step
  finds no further row or the statement is finalized.
\<close>

datatype step_result = Row zrtpIdRemote_row stmt | Done | Failed int string

definition sqlite3_step :: "sqlite3_db \<Rightarrow> stmt \<Rightarrow> step_result" where
  "sqlite3_step db st =
     (case st of
        Prepared \<Rightarrow>
          (case zrtpIdRemote db of
             None \<Rightarrow> Failed SQLITE_ERROR (no_such_table ''zrtpIdRemote'')
           | Some rows \<Rightarrow>
               (case order_by_secureSince_desc rows of
                  [] \<Rightarrow> Done
                | row # rest \<Rightarrow> Row row (Stepping rest)))
      | Stepping [] \<Rightarrow> Done
      | Stepping (row # rest) \<Rightarrow> Row row (Stepping rest))"

definition statement_started :: "sqlite3_db \<Rightarrow> stmt \<Rightarrow> sqlite3_db" where
  \<comment> \<open>The connection after a step of the statement has delivered a row: a statement
      that was only prepared is active from now on.\<close>
  "statement_started db st =
     (case st of
        Prepared \<Rightarrow> db\<lparr>active_statements := active_statements db + 1\<rparr>
      | Stepping rest \<Rightarrow> db)"

definition sqlite3_finalize :: "sqlite3_db \<Rightarrow> stmt \<Rightarrow> sqlite3_db" where
  \<comment> \<open>The connection after the statement is gone: an active statement counts no more.\<close>
  "sqlite3_finalize db st =
     (case st of
        Prepared \<Rightarrow> db
      | Stepping rest \<Rightarrow> db\<lparr>active_statements := active_statements db - 1\<rparr>)"

definition prepareReadAllZid :: "sqlite3_db \<Rightarrow> stmt option \<times> errtext option" where
  "prepareReadAllZid db =
     (case zrtpIdRemote db of
        None \<Rightarrow> (None, Some (SQLiteError (no_such_table ''zrtpIdRemote'')))
      | Some rows \<Rightarrow> (Some Prepared, None))"

definition readNextZidRecord ::
  "sqlite3_db \<Rightarrow> stmt option \<Rightarrow> remoteZidRecord \<Rightarrow>
     (stmt option \<times> remoteZidRecord \<times> errtext option \<times> sqlite3_db) option" where
  \<comment> \<open>\<open>vstmt = None\<close> is the null pointer, and so is a returned \<open>None\<close> statement. The
      last component is the connection after the call. The outer \<open>None\<close> is an exception
      of the decoder leaving the function.\<close>
  "readNextZidRecord db vstmt remZid =
     (case vstmt of
        None \<Rightarrow> Some (None, remZid, None, db)
      | Some st \<Rightarrow>
          (case sqlite3_step db st of
             Row row st' \<Rightarrow>
               (let remZid = remote_columns row remZid
                in case b64Decode (rem_remoteZid row) (length (rem_remoteZid row)) of
                     None \<Rightarrow> None
                   | Some bytes \<Rightarrow>
                       Some (Some st',
                             remZid\<lparr>identifier_zid := write_bytes (identifier_zid remZid) bytes\<rparr>,
                             None, statement_started db st))
           | Done \<Rightarrow> Some (None, remZid, None, sqlite3_finalize db st)
           | Failed rc m \<Rightarrow> Some (None, remZid, Some (SQLiteError m), sqlite3_finalize db st)))"

definition closeStatement :: "sqlite3_db \<Rightarrow> stmt option \<Rightarrow> sqlite3_db" where
  "closeStatement db vstmt = (case vstmt of None \<Rightarrow> db | Some st \<Rightarrow> sqlite3_finalize db st)"

subsection \<open>Well-formed records and sample data\<close>

definition remote_arrays_full :: "remoteZidRecord \<Rightarrow> bool" where
  \<comment> \<open>The three byte arrays of the C struct have \<open>RS_LENGTH\<close> elements.\<close>
  "remote_arrays_full r \<longleftrightarrow>
     length (rs1 r) = RS_LENGTH \<and> length (rs2 r) = RS_LENGTH \<and> length (mitmKey r) = RS_LENGTH"

definition remote_timestamps_in_range :: "remoteZidRecord \<Rightarrow> bool" where
  \<comment> \<open>All six timestamps are seconds that the engine's date functions accept.\<close>
  "remote_timestamps_in_range r \<longleftrightarrow>
     in_date_range (sint (rs1LastUse r)) \<and> in_date_range (sint (rs1Ttl r)) \<and>
     in_date_range (sint (rs2LastUse r)) \<and> in_date_range (sint (rs2Ttl r)) \<and>
     in_date_range (sint (mitmLastUse r)) \<and> in_date_range (sint (secureSince r))"

definition no_tables :: sqlite3_db where
  \<comment> \<open>A database file that was just created.\<close>
  "no_tables = \<lparr>zrtpIdOwn = None, zrtpIdRemote = None, zrtpNames = None, active_statements = 0\<rparr>"

definition fresh_cache :: sqlite3_db where
  "fresh_cache = fst (snd (openCache no_tables))"

definition zid_alice :: "byte list" where
  "zid_alice = [1, 2, 3, 4, 5, 6, 7, 8, 9, 10, 11, 12]"

definition zid_bob :: "byte list" where
  "zid_bob = [160, 161, 162, 163, 164, 165, 166, 167, 168, 169, 170, 171]"

definition rec_sample :: remoteZidRecord where
  "rec_sample =
     \<lparr>identifier_zid = replicate 12 0, flags = 1,
      rs1 = replicate 32 17, rs1LastUse = 1700000000, rs1Ttl = - 1,
      rs2 = replicate 32 34, rs2LastUse = 1600000000, rs2Ttl = 0,
      mitmKey = replicate 32 0, mitmLastUse = 0,
      secureSince = 1500000000, preshCounter = 3\<rparr>"

definition rec_year_10000 :: remoteZidRecord where
  \<comment> \<open>A record whose first secret expires at 10000-01-01 00:00:00.\<close>
  "rec_year_10000 = rec_sample\<lparr>rs1Ttl := 253402300800\<rparr>"

definition cache_one_peer :: sqlite3_db where
  "cache_one_peer = fst (snd (insertRemoteZidRecord fresh_cache zid_bob zid_alice rec_sample))"

definition cache_duplicate :: sqlite3_db where
  "cache_duplicate =
     fst (snd (insertRemoteZidRecord
       (fst (snd (insertRemoteZidRecord fresh_cache zid_alice zid_bob rec_sample)))
       zid_alice zid_bob (rec_sample\<lparr>flags := 7\<rparr>)))"

definition rec_t1 :: remoteZidRecord where
  "rec_t1 = rec_sample\<lparr>secureSince := 1000\<rparr>"

definition rec_t2 :: remoteZidRecord where
  "rec_t2 = rec_sample\<lparr>secureSince := 2000\<rparr>"

definition rec_t3 :: remoteZidRecord where
  "rec_t3 = rec_sample\<lparr>secureSince := 3000\<rparr>"

definition rec_t3_far :: remoteZidRecord where
  "rec_t3_far = rec_sample\<lparr>secureSince := 253402300800\<rparr>"

definition cache_three :: sqlite3_db where
  "cache_three =
     fst (snd (insertRemoteZidRecord
       (fst (snd (insertRemoteZidRecord
          (fst (snd (insertRemoteZidRecord fresh_cache zid_alice zid_bob rec_t2)))
          zid_bob zid_alice rec_t3)))
       zid_alice zid_alice rec_t1))"

definition cache_three_far :: sqlite3_db where
  "cache_three_far =
     fst (snd (insertRemoteZidRecord
       (fst (snd (insertRemoteZidRecord
          (fst (snd (insertRemoteZidRecord fresh_cache zid_alice zid_bob rec_t2)))
          zid_bob zid_alice rec_t3_far)))
       zid_alice zid_alice rec_t1))"

definition account_label :: "string option \<Rightarrow> string" where
  \<comment> \<open>The label that a call is about: the null pointer stands for the default string.\<close>
  "account_label accountInfo =
     (case accountInfo of None \<Rightarrow> defaultAccountString | Some a \<Rightarrow> a)"

definition own_values :: "byte list \<Rightarrow> string option \<Rightarrow> zrtpIdOwn_row" where
  \<comment> \<open>The row of an identifier under a label: type 1 with the default string, type 2
      with every other label.\<close>
  "own_values zid accountInfo =
     \<lparr>own_localZid = b64Encode zid IDENTIFIER_LEN,
      own_type = (if account_label accountInfo = defaultAccountString then 1 else 2),
      own_accountInfo = account_label accountInfo\<rparr>"


definition rec_blank :: remoteZidRecord where
  \<comment> \<open>A caller's record that shares no field with the sample records.\<close>
  "rec_blank =
     \<lparr>identifier_zid = zid_bob, flags = 85,
      rs1 = replicate 32 238, rs1LastUse = 11, rs1Ttl = 12,
      rs2 = replicate 32 221, rs2LastUse = 13, rs2Ttl = 14,
      mitmKey = replicate 32 204, mitmLastUse = 15,
      secureSince = 16, preshCounter = 17\<rparr>"

definition rng_cycle :: rng where
  \<comment> \<open>A generator that repeats the bytes 0 to 11.\<close>
  "rng_cycle i = of_nat (i mod 12)"





definition cache_cursor_open :: sqlite3_db where
  \<comment> \<open>A cache with one peer and one local identifier on which an enumeration has
      delivered its first record and is not closed.\<close>
  "cache_cursor_open =
     cache_one_peer\<lparr>zrtpIdOwn := Some [own_values (fst (randomZRTP rng_cycle IDENTIFIER_LEN)) None],
                    active_statements := 1\<rparr>"

definition name_sample :: zidNameRecord where
  "name_sample = \<lparr>name = Some ''Alice'', nameLength = 5, flagsN = 0\<rparr>"

definition name_absent :: zidNameRecord where
  "name_absent = \<lparr>name = None, nameLength = 0, flagsN = 1\<rparr>"

section \<open>Properties\<close>

subsection \<open>Base64: decoding inverts encoding\<close>

lemma index_of_nth:
  "distinct xs \<Longrightarrow> i < length xs \<Longrightarrow> index_of (xs ! i) xs = Some i"
proof (induction xs arbitrary: i)
  case Nil
  then show ?case by simp
next
  case (Cons y ys)
  show ?case
  proof (cases i)
    case 0
    then show ?thesis by simp
  next
    case (Suc j)
    with Cons.prems have "ys ! j \<in> set ys" "y \<notin> set ys" "j < length ys" "distinct ys"
      by auto
    with Cons.IH [of j] Suc show ?thesis by auto
  qed
qed

lemma length_b64_alphabet: "length b64_alphabet = 64"
  by (simp add: b64_alphabet_def)

lemma distinct_b64_alphabet: "distinct b64_alphabet"
  by (simp add: b64_alphabet_def)

lemma pad_not_in_alphabet: "pad_char \<notin> set b64_alphabet"
  by (simp add: b64_alphabet_def pad_char_def)

lemma b64_value_char: "i < 64 \<Longrightarrow> b64_value (b64_char i) = Some i"
  unfolding b64_value_def b64_char_def
  by (rule index_of_nth [OF distinct_b64_alphabet]) (simp add: length_b64_alphabet)

lemma b64_char_not_pad: "i < 64 \<Longrightarrow> b64_char i \<noteq> pad_char"
proof -
  assume "i < 64"
  then have "b64_char i \<in> set b64_alphabet"
    by (simp add: b64_char_def length_b64_alphabet)
  with pad_not_in_alphabet show ?thesis by metis
qed

lemma unat_byte_less: "unat (a :: byte) < 256"
  using unsigned_less [of a] by simp

lemma sextet_bounds:
  fixes a b c :: byte
  shows "unat a div 4 < 64"
    and "(unat a mod 4) * 16 + unat b div 16 < 64"
    and "(unat b mod 16) * 4 + unat c div 64 < 64"
    and "unat c mod 64 < 64"
    and "(unat a mod 4) * 16 < 64"
    and "(unat b mod 16) * 4 < 64"
  using unat_byte_less [of a] unat_byte_less [of b] unat_byte_less [of c] by auto

lemma octet_unat: "octet (unat a) = a"
  by (simp add: octet_def)

lemma byte_div_facts:
  fixes b :: byte
  shows "unat b div 16 div 16 = 0"
    and "unat b div 64 div 4 = 0"
    and "unat b div 16 mod 16 = unat b div 16"
    and "unat b div 64 mod 4 = unat b div 64"
proof -
  have l: "unat b < 256" by (rule unat_byte_less)
  then have h16: "unat b div 16 < 16" and h64: "unat b div 64 < 4" by arith+
  from h16 show "unat b div 16 div 16 = 0" by simp
  from h64 show "unat b div 64 div 4 = 0" by simp
  from h16 show "unat b div 16 mod 16 = unat b div 16" by simp
  from h64 show "unat b div 64 mod 4 = unat b div 64" by simp
qed

lemma base64_encode_Nil_iff: "base64_encode bs = [] \<longleftrightarrow> bs = []"
  by (induction bs rule: base64_encode.induct) simp_all

lemma base64_roundtrip: "base64_decode (base64_encode bs) = Some bs"
proof (induction bs rule: base64_encode.induct)
  case (1 a b c rest)
  then show ?case
    by (simp add: b64_value_char b64_char_not_pad sextet_bounds byte_div_facts octet_unat
        base64_encode_Nil_iff)
next
  case (2 a b)
  then show ?case
    by (simp add: b64_value_char b64_char_not_pad sextet_bounds byte_div_facts octet_unat)
next
  case (3 a)
  then show ?case
    by (simp add: b64_value_char b64_char_not_pad sextet_bounds byte_div_facts octet_unat)
next
  case 4
  then show ?case by simp
qed

lemma base64_encode_inj: "base64_encode xs = base64_encode ys \<Longrightarrow> xs = ys"
proof -
  assume "base64_encode xs = base64_encode ys"
  then have "base64_decode (base64_encode xs) = base64_decode (base64_encode ys)"
    by simp
  then show "xs = ys" by (simp add: base64_roundtrip)
qed

lemma b64Decode_b64Encode:
  "b64Decode (b64Encode b n) (length (b64Encode b n)) = Some (take n b)"
  by (simp add: b64Decode_def b64Encode_def base64_roundtrip)

lemma b64Encode_inj:
  "length x = IDENTIFIER_LEN \<Longrightarrow> length y = IDENTIFIER_LEN \<Longrightarrow>
   b64Encode x IDENTIFIER_LEN = b64Encode y IDENTIFIER_LEN \<longleftrightarrow> x = y"
  by (auto simp: b64Encode_def dest: base64_encode_inj)

text \<open>
  C3. For every byte sequence \<open>b\<close> of the identifier length (12 bytes), decoding the text
  that encoding \<open>b\<close> produces returns exactly \<open>b\<close>: the decoder does not fail and yields
  the bytes that went in. The text is passed with its own length, as the callers do with
  \<open>strlen\<close>.
\<close>

theorem b64Decode_inverts_b64Encode:
  "length b = IDENTIFIER_LEN \<Longrightarrow>
   b64Decode (b64Encode b IDENTIFIER_LEN) (length (b64Encode b IDENTIFIER_LEN)) = Some b"
  by (simp add: b64Decode_def b64Encode_def base64_roundtrip)

theorem b64Decode_inverts_b64Encode_witness:
  "length [90, 82, 84, 80, 255, 0, 1, 2, 3, 128, 127, 64 :: byte] = IDENTIFIER_LEN \<and>
   b64Decode (b64Encode [90, 82, 84, 80, 255, 0, 1, 2, 3, 128, 127, 64] IDENTIFIER_LEN)
     (length (b64Encode [90, 82, 84, 80, 255, 0, 1, 2, 3, 128, 127, 64] IDENTIFIER_LEN))
   = Some [90, 82, 84, 80, 255, 0, 1, 2, 3, 128, 127, 64]"
proof -
  have len: "length [90, 82, 84, 80, 255, 0, 1, 2, 3, 128, 127, 64 :: byte] = IDENTIFIER_LEN"
    by (simp add: IDENTIFIER_LEN_def)
  from len b64Decode_inverts_b64Encode [OF len] show ?thesis by blast
qed

subsection \<open>Decimal text: reading inverts printing\<close>

lemma digit_value_char: "d < 10 \<Longrightarrow> digit_value (digit_char d) = d"
  by (simp add: digit_value_def digit_char_def)

lemma digit_char_not_minus: "d < 10 \<Longrightarrow> digit_char d \<noteq> CHR ''-''"
proof
  assume d: "d < 10" and "digit_char d = CHR ''-''"
  then have "(of_char (digit_char d) :: nat) = of_char (CHR ''-'')" by simp
  with d show False by (simp add: digit_char_def)
qed

lemma text_nat_snoc: "text_nat (s @ [c]) = text_nat s * 10 + digit_value c"
  by (simp add: text_nat_def)

lemma text_nat_nat_text: "text_nat (nat_text n) = n"
proof (induction n rule: nat_text.induct)
  case (1 n)
  show ?case
  proof (cases "n < 10")
    case True
    then show ?thesis
      by (subst nat_text.simps) (simp add: text_nat_def digit_value_char)
  next
    case False
    with 1 have "text_nat (nat_text (n div 10)) = n div 10" by simp
    with False show ?thesis
      by (subst nat_text.simps) (simp add: text_nat_snoc digit_value_char)
  qed
qed

lemma nat_text_first: "\<exists>d ds. d < 10 \<and> nat_text n = digit_char d # ds"
proof (induction n rule: nat_text.induct)
  case (1 n)
  show ?case
  proof (cases "n < 10")
    case True
    then show ?thesis by (subst nat_text.simps) auto
  next
    case False
    with 1 obtain d ds where "d < 10" "nat_text (n div 10) = digit_char d # ds" by auto
    with False show ?thesis by (subst nat_text.simps) auto
  qed
qed

lemma text_int_int_text: "text_int (int_text i) = i"
proof (cases "i < 0")
  case True
  then show ?thesis by (simp add: int_text_def text_int_def text_nat_nat_text)
next
  case False
  obtain d ds where d: "d < 10" "nat_text (nat i) = digit_char d # ds"
    using nat_text_first by blast
  have "text_nat (digit_char d # ds) = nat i"
    using text_nat_nat_text [of "nat i"] d by simp
  with False d show ?thesis
    by (simp add: int_text_def text_int_def digit_char_not_minus)
qed

subsection \<open>What a column gives back of what was bound\<close>

lemma stored_in_range:
  "in_date_range n \<Longrightarrow> numeric_affinity (strftime_s_unixepoch (Some n)) = Some n"
  by (simp add: numeric_affinity_def strftime_s_unixepoch_def text_int_int_text)

lemma stored_out_of_range:
  "\<not> in_date_range n \<Longrightarrow> numeric_affinity (strftime_s_unixepoch (Some n)) = None"
  by (simp add: numeric_affinity_def strftime_s_unixepoch_def)

lemma column_int64_in_range:
  "in_date_range (sint w) \<Longrightarrow>
   sqlite3_column_int64 (strftime_s_unixepoch (Some (sint w))) = (w :: 64 word)"
  by (simp add: sqlite3_column_int64_def strftime_s_unixepoch_def text_int_int_text)

lemma column_int64_null: "sqlite3_column_int64 (strftime_s_unixepoch None) = 0"
  by (simp add: sqlite3_column_int64_def strftime_s_unixepoch_def)

lemma timestamp_roundtrip:
  "in_date_range (sint w) \<Longrightarrow>
   sqlite3_column_int64 (strftime_s_unixepoch
     (numeric_affinity (strftime_s_unixepoch (Some (bind_int64 w))))) = w"
  by (simp add: bind_int64_def stored_in_range column_int64_in_range)

lemma timestamp_lost:
  "\<not> in_date_range (sint w) \<Longrightarrow>
   sqlite3_column_int64 (strftime_s_unixepoch
     (numeric_affinity (strftime_s_unixepoch (Some (bind_int64 w))))) = 0"
  by (simp add: bind_int64_def stored_out_of_range column_int64_null)

lemma column_int_bind_int: "sqlite3_column_int (bind_int w) = w"
  by (simp add: sqlite3_column_int_def bind_int_def)

subsection \<open>Peer-secret records: reading what is stored\<close>

lemma openCache_no_tables:
  "openCache no_tables = (SQLITE_OK, \<lparr>zrtpIdOwn = Some [], zrtpIdRemote = Some [], zrtpNames = Some [], active_statements = 0\<rparr>, None)"
  by (simp add: openCache_def no_tables_def createTables_def initializeRemoteTables_def
      create_table_def drop_table_def SQLITE_DONE_def SQLITE_OK_def)

lemma fresh_cache_eq:
  "fresh_cache = \<lparr>zrtpIdOwn = Some [], zrtpIdRemote = Some [], zrtpNames = Some [], active_statements = 0\<rparr>"
  by (simp add: fresh_cache_def openCache_no_tables)

lemma remote_columns_absorb:
  "remote_columns row (remote_columns row' r) = remote_columns row r"
  by (simp add: remote_columns_def)

lemma readRemoteZidRecord_rows_found:
  "snd (readRemoteZidRecord_rows rows r n) = n + int (length rows)"
  by (induction rows arbitrary: r n) simp_all

lemma readRemoteZidRecord_rows_last:
  "rows \<noteq> [] \<Longrightarrow> fst (readRemoteZidRecord_rows rows r n) = remote_columns (last rows) r"
proof (induction rows arbitrary: r n)
  case Nil
  then show ?case by simp
next
  case (Cons row rows)
  show ?case
  proof (cases rows)
    case Nil
    then show ?thesis by simp
  next
    case (Cons row' rows')
    with Cons.IH [of "remote_columns row r" "n + 1"] show ?thesis
      by (simp add: remote_columns_absorb)
  qed
qed

lemma readRemoteZidRecord_table:
  assumes "zrtpIdRemote db = Some rows"
  shows "readRemoteZidRecord db remoteZid localZid remZid =
     (let ms = selectZrtpIdRemoteAll (b64Encode remoteZid IDENTIFIER_LEN)
                 (b64Encode localZid IDENTIFIER_LEN) rows
      in if ms = [] then (SQLITE_OK, remZid\<lparr>flags := 0\<rparr>, None)
         else if 1 < length ms
         then (1, remote_columns (last ms) remZid, Some (MoreThanOneRemoteZid (int (length ms))))
         else (SQLITE_OK, remote_columns (last ms) remZid, None))"
proof -
  let ?ms = "selectZrtpIdRemoteAll (b64Encode remoteZid IDENTIFIER_LEN)
                 (b64Encode localZid IDENTIFIER_LEN) rows"
  obtain r' found where rf: "readRemoteZidRecord_rows ?ms remZid 0 = (r', found)"
    by (cases "readRemoteZidRecord_rows ?ms remZid 0")
  from rf have found: "found = int (length ?ms)"
    using readRemoteZidRecord_rows_found [of ?ms remZid 0] by simp
  show ?thesis
  proof (cases "?ms = []")
    case True
    with assms show ?thesis by (simp add: readRemoteZidRecord_def)
  next
    case False
    with rf have "r' = remote_columns (last ?ms) remZid"
      using readRemoteZidRecord_rows_last [of ?ms remZid 0] by simp
    with assms rf found False show ?thesis
      by (simp add: readRemoteZidRecord_def Let_def)
  qed
qed

lemma length_zids: "length zid_alice = IDENTIFIER_LEN" "length zid_bob = IDENTIFIER_LEN"
  by (simp_all add: zid_alice_def zid_bob_def IDENTIFIER_LEN_def)

lemma zid_keys_differ:
  "b64Encode zid_alice IDENTIFIER_LEN \<noteq> b64Encode zid_bob IDENTIFIER_LEN"
  "b64Encode zid_bob IDENTIFIER_LEN \<noteq> b64Encode zid_alice IDENTIFIER_LEN"
  using b64Encode_inj [OF length_zids(1) length_zids(2)] b64Encode_inj [OF length_zids(2) length_zids(1)]
  by (simp_all add: zid_alice_def zid_bob_def)

lemma rec_sample_ok: "remote_arrays_full rec_sample" "remote_timestamps_in_range rec_sample"
  by (simp_all add: remote_arrays_full_def remote_timestamps_in_range_def rec_sample_def
      RS_LENGTH_def in_date_range_def)

lemma cache_one_peer_eq:
  "cache_one_peer = fresh_cache\<lparr>zrtpIdRemote := Some
     [remote_values (b64Encode zid_bob IDENTIFIER_LEN) (b64Encode zid_alice IDENTIFIER_LEN) rec_sample]\<rparr>"
  by (simp add: cache_one_peer_def insertRemoteZidRecord_def fresh_cache_eq)

lemma remote_columns_values:
  assumes "remote_arrays_full r" and "remote_timestamps_in_range r"
  shows "remote_columns (remote_values k1 k2 r) out = r\<lparr>identifier_zid := identifier_zid out\<rparr>"
  using assms
  by (simp add: remote_columns_def remote_values_def remote_arrays_full_def
      remote_timestamps_in_range_def timestamp_roundtrip column_int_bind_int)

text \<open>
  C4. When the peer table holds no row under the key \<open>(remoteZid, localZid)\<close>, that is no
  row was ever written for it, \<open>readRemoteZidRecord\<close> returns \<open>SQLITE_OK\<close>, writes no
  diagnostic, and the record comes back with \<open>flags = 0\<close> (its other fields are the
  caller's).
\<close>

theorem read_absent_key:
  assumes "zrtpIdRemote db = Some rows"
    and "\<forall>row \<in> set rows. \<not> remote_key (b64Encode remoteZid IDENTIFIER_LEN)
           (b64Encode localZid IDENTIFIER_LEN) row"
  shows "readRemoteZidRecord db remoteZid localZid remZid = (SQLITE_OK, remZid\<lparr>flags := 0\<rparr>, None)"
proof -
  from assms(2) have "selectZrtpIdRemoteAll (b64Encode remoteZid IDENTIFIER_LEN)
      (b64Encode localZid IDENTIFIER_LEN) rows = []"
    by (simp add: selectZrtpIdRemoteAll_def filter_empty_conv)
  with assms(1) show ?thesis by (simp add: readRemoteZidRecord_table)
qed

theorem read_absent_key_witness:
  "zrtpIdRemote cache_one_peer = Some
     [remote_values (b64Encode zid_bob IDENTIFIER_LEN) (b64Encode zid_alice IDENTIFIER_LEN) rec_sample] \<and>
   readRemoteZidRecord cache_one_peer zid_alice zid_bob rec_sample
     = (SQLITE_OK, rec_sample\<lparr>flags := 0\<rparr>, None)"
proof -
  have tab: "zrtpIdRemote cache_one_peer = Some
     [remote_values (b64Encode zid_bob IDENTIFIER_LEN) (b64Encode zid_alice IDENTIFIER_LEN) rec_sample]"
    by (simp add: cache_one_peer_eq)
  have free: "\<forall>row \<in> set [remote_values (b64Encode zid_bob IDENTIFIER_LEN)
        (b64Encode zid_alice IDENTIFIER_LEN) rec_sample].
      \<not> remote_key (b64Encode zid_alice IDENTIFIER_LEN) (b64Encode zid_bob IDENTIFIER_LEN) row"
    by (simp add: remote_key_def remote_values_def zid_keys_differ)
  from read_absent_key [OF tab free, of rec_sample] tab show ?thesis by simp
qed

text \<open>
  C1 (as amended). For a record whose three arrays are full and whose six timestamps lie in
  the range of dates the engine accepts (\<open>in_date_range\<close>), and a key with no row in the
  peer table, \<open>insertRemoteZidRecord\<close> succeeds and \<open>readRemoteZidRecord\<close> of the same
  key then returns \<open>SQLITE_OK\<close> and a record equal to the inserted one in every field
  that the read fills, each timestamp being the integer the caller supplied. The read does
  not touch \<open>identifier_zid\<close>, which stays the caller's.
\<close>

theorem insert_then_read:
  assumes "zrtpIdRemote db = Some rows"
    and "\<forall>row \<in> set rows. \<not> remote_key (b64Encode remoteZid IDENTIFIER_LEN)
           (b64Encode localZid IDENTIFIER_LEN) row"
    and "remote_arrays_full r"
    and "remote_timestamps_in_range r"
  shows "fst (insertRemoteZidRecord db remoteZid localZid r) = SQLITE_OK \<and>
         readRemoteZidRecord (fst (snd (insertRemoteZidRecord db remoteZid localZid r)))
           remoteZid localZid out
         = (SQLITE_OK, r\<lparr>identifier_zid := identifier_zid out\<rparr>, None)"
proof -
  let ?k1 = "b64Encode remoteZid IDENTIFIER_LEN" and ?k2 = "b64Encode localZid IDENTIFIER_LEN"
  let ?row = "remote_values ?k1 ?k2 r"
  from assms(2) have none: "filter (remote_key ?k1 ?k2) rows = []"
    by (simp add: filter_empty_conv)
  have key: "remote_key ?k1 ?k2 ?row"
    by (simp add: remote_key_def remote_values_def)
  from none key have sel: "selectZrtpIdRemoteAll ?k1 ?k2 (rows @ [?row]) = [?row]"
    by (simp add: selectZrtpIdRemoteAll_def)
  from assms(1) have ins: "insertRemoteZidRecord db remoteZid localZid r =
      (SQLITE_OK, db\<lparr>zrtpIdRemote := Some (rows @ [?row])\<rparr>, None)"
    by (simp add: insertRemoteZidRecord_def)
  have "readRemoteZidRecord (db\<lparr>zrtpIdRemote := Some (rows @ [?row])\<rparr>) remoteZid localZid out
      = (SQLITE_OK, remote_columns ?row out, None)"
    by (subst readRemoteZidRecord_table [where rows = "rows @ [?row]"]) (simp_all add: sel)
  with ins assms(3,4) show ?thesis
    by (simp add: remote_columns_values)
qed

theorem insert_then_read_witness:
  "zrtpIdRemote cache_one_peer = Some
     [remote_values (b64Encode zid_bob IDENTIFIER_LEN) (b64Encode zid_alice IDENTIFIER_LEN) rec_sample] \<and>
   remote_arrays_full rec_sample \<and> remote_timestamps_in_range rec_sample \<and>
   fst (insertRemoteZidRecord cache_one_peer zid_alice zid_bob rec_sample) = SQLITE_OK \<and>
   readRemoteZidRecord (fst (snd (insertRemoteZidRecord cache_one_peer zid_alice zid_bob rec_sample)))
     zid_alice zid_bob (rec_sample\<lparr>flags := 0\<rparr>)
   = (SQLITE_OK, rec_sample, None)"
proof -
  have tab: "zrtpIdRemote cache_one_peer = Some
     [remote_values (b64Encode zid_bob IDENTIFIER_LEN) (b64Encode zid_alice IDENTIFIER_LEN) rec_sample]"
    by (simp add: cache_one_peer_eq)
  have free: "\<forall>row \<in> set [remote_values (b64Encode zid_bob IDENTIFIER_LEN)
        (b64Encode zid_alice IDENTIFIER_LEN) rec_sample].
      \<not> remote_key (b64Encode zid_alice IDENTIFIER_LEN) (b64Encode zid_bob IDENTIFIER_LEN) row"
    by (simp add: remote_key_def remote_values_def zid_keys_differ)
  from insert_then_read [OF tab free rec_sample_ok, of "rec_sample\<lparr>flags := 0\<rparr>"] tab rec_sample_ok
  show ?thesis by simp
qed

text \<open>
  The claim C1 as stated, for every record, fails: a timestamp outside the engine's dates is
  stored as \<open>NULL\<close> by the \<open>strftime\<close> of the insert and read back as 0. Here the first
  secret's time to live is 253402300800 (the first second of the year 10000).
\<close>

theorem insert_then_read_counterexample:
  "remote_arrays_full rec_year_10000 \<and>
   fst (insertRemoteZidRecord fresh_cache zid_alice zid_bob rec_year_10000) = SQLITE_OK \<and>
   fst (readRemoteZidRecord
          (fst (snd (insertRemoteZidRecord fresh_cache zid_alice zid_bob rec_year_10000)))
          zid_alice zid_bob rec_year_10000) = SQLITE_OK \<and>
   rs1Ttl (fst (snd (readRemoteZidRecord
          (fst (snd (insertRemoteZidRecord fresh_cache zid_alice zid_bob rec_year_10000)))
          zid_alice zid_bob rec_year_10000))) = 0 \<and>
   rs1Ttl rec_year_10000 = 253402300800 \<and>
   fst (snd (readRemoteZidRecord
          (fst (snd (insertRemoteZidRecord fresh_cache zid_alice zid_bob rec_year_10000)))
          zid_alice zid_bob rec_year_10000)) \<noteq> rec_year_10000"
proof -
  let ?row = "remote_values (b64Encode zid_alice IDENTIFIER_LEN) (b64Encode zid_bob IDENTIFIER_LEN)
                rec_year_10000"
  have ins: "insertRemoteZidRecord fresh_cache zid_alice zid_bob rec_year_10000
      = (SQLITE_OK, fresh_cache\<lparr>zrtpIdRemote := Some [?row]\<rparr>, None)"
    by (simp add: insertRemoteZidRecord_def fresh_cache_eq)
  have sel: "selectZrtpIdRemoteAll (b64Encode zid_alice IDENTIFIER_LEN)
      (b64Encode zid_bob IDENTIFIER_LEN) [?row] = [?row]"
    by (simp add: selectZrtpIdRemoteAll_def remote_key_def remote_values_def)
  have rd: "readRemoteZidRecord (fresh_cache\<lparr>zrtpIdRemote := Some [?row]\<rparr>) zid_alice zid_bob
      rec_year_10000 = (SQLITE_OK, remote_columns ?row rec_year_10000, None)"
    by (subst readRemoteZidRecord_table [where rows = "[?row]"]) (simp_all add: sel)
  have far: "\<not> in_date_range (sint (253402300800 :: 64 word))"
    by (simp add: in_date_range_def)
  have lost: "rs1Ttl (remote_columns ?row rec_year_10000) = 0"
    using timestamp_lost [OF far]
    by (simp add: remote_columns_def remote_values_def rec_year_10000_def)
  have orig: "rs1Ttl rec_year_10000 = 253402300800"
    by (simp add: rec_year_10000_def)
  have full: "remote_arrays_full rec_year_10000"
    by (simp add: remote_arrays_full_def rec_year_10000_def rec_sample_def RS_LENGTH_def)
  from lost orig have "remote_columns ?row rec_year_10000 \<noteq> rec_year_10000"
    by auto
  with ins rd lost orig full show ?thesis by simp
qed

text \<open>
  C2. Whenever more than one row of the peer table matches the key, \<open>readRemoteZidRecord\<close>
  returns 1 and its diagnostic is the "more than one remote ZID" line with the number of
  matching rows. In particular two inserts under one key both succeed (the table has no
  uniqueness constraint) and the read that follows fails in this way, the count being the
  two new rows on top of those that matched before.
\<close>

theorem read_duplicate_key:
  assumes "zrtpIdRemote db = Some rows"
  shows "(1 < length (selectZrtpIdRemoteAll (b64Encode remoteZid IDENTIFIER_LEN)
                (b64Encode localZid IDENTIFIER_LEN) rows) \<longrightarrow>
          fst (readRemoteZidRecord db remoteZid localZid remZid) = 1 \<and>
          snd (snd (readRemoteZidRecord db remoteZid localZid remZid)) =
            Some (MoreThanOneRemoteZid (int (length (selectZrtpIdRemoteAll
              (b64Encode remoteZid IDENTIFIER_LEN) (b64Encode localZid IDENTIFIER_LEN) rows)))))
       \<and> fst (insertRemoteZidRecord db remoteZid localZid r1) = SQLITE_OK
       \<and> fst (insertRemoteZidRecord (fst (snd (insertRemoteZidRecord db remoteZid localZid r1)))
                remoteZid localZid r2) = SQLITE_OK
       \<and> fst (readRemoteZidRecord
                (fst (snd (insertRemoteZidRecord
                   (fst (snd (insertRemoteZidRecord db remoteZid localZid r1)))
                   remoteZid localZid r2)))
                remoteZid localZid remZid) = 1
       \<and> snd (snd (readRemoteZidRecord
                (fst (snd (insertRemoteZidRecord
                   (fst (snd (insertRemoteZidRecord db remoteZid localZid r1)))
                   remoteZid localZid r2)))
                remoteZid localZid remZid)) =
           Some (MoreThanOneRemoteZid (int (length (selectZrtpIdRemoteAll
              (b64Encode remoteZid IDENTIFIER_LEN) (b64Encode localZid IDENTIFIER_LEN) rows)) + 2))"
proof -
  let ?k1 = "b64Encode remoteZid IDENTIFIER_LEN" and ?k2 = "b64Encode localZid IDENTIFIER_LEN"
  let ?rows2 = "rows @ [remote_values ?k1 ?k2 r1] @ [remote_values ?k1 ?k2 r2]"
  let ?db2 = "db\<lparr>zrtpIdRemote := Some ?rows2\<rparr>"
  have gen: "1 < length (selectZrtpIdRemoteAll ?k1 ?k2 rows) \<longrightarrow>
          fst (readRemoteZidRecord db remoteZid localZid remZid) = 1 \<and>
          snd (snd (readRemoteZidRecord db remoteZid localZid remZid)) =
            Some (MoreThanOneRemoteZid (int (length (selectZrtpIdRemoteAll ?k1 ?k2 rows))))"
    using assms by (auto simp: readRemoteZidRecord_table Let_def)
  from assms have ins1: "insertRemoteZidRecord db remoteZid localZid r1 =
      (SQLITE_OK, db\<lparr>zrtpIdRemote := Some (rows @ [remote_values ?k1 ?k2 r1])\<rparr>, None)"
    by (simp add: insertRemoteZidRecord_def)
  have ins2: "insertRemoteZidRecord (db\<lparr>zrtpIdRemote := Some (rows @ [remote_values ?k1 ?k2 r1])\<rparr>)
      remoteZid localZid r2 = (SQLITE_OK, ?db2, None)"
    by (simp add: insertRemoteZidRecord_def)
  have len: "length (selectZrtpIdRemoteAll ?k1 ?k2 ?rows2)
      = length (selectZrtpIdRemoteAll ?k1 ?k2 rows) + 2"
    by (simp add: selectZrtpIdRemoteAll_def remote_key_def remote_values_def)
  have tab2: "zrtpIdRemote ?db2 = Some ?rows2" by simp
  have rd: "fst (readRemoteZidRecord ?db2 remoteZid localZid remZid) = 1 \<and>
      snd (snd (readRemoteZidRecord ?db2 remoteZid localZid remZid)) =
        Some (MoreThanOneRemoteZid (int (length (selectZrtpIdRemoteAll ?k1 ?k2 rows)) + 2))"
    unfolding readRemoteZidRecord_table [OF tab2] Let_def using len by auto
  from gen ins1 ins2 rd show ?thesis by simp
qed

lemma cache_duplicate_eq:
  "cache_duplicate = fresh_cache\<lparr>zrtpIdRemote := Some
     [remote_values (b64Encode zid_alice IDENTIFIER_LEN) (b64Encode zid_bob IDENTIFIER_LEN) rec_sample,
      remote_values (b64Encode zid_alice IDENTIFIER_LEN) (b64Encode zid_bob IDENTIFIER_LEN)
        (rec_sample\<lparr>flags := 7\<rparr>)]\<rparr>"
  by (simp add: cache_duplicate_def insertRemoteZidRecord_def fresh_cache_eq)

lemma cache_duplicate_select:
  "selectZrtpIdRemoteAll (b64Encode zid_alice IDENTIFIER_LEN) (b64Encode zid_bob IDENTIFIER_LEN)
     [remote_values (b64Encode zid_alice IDENTIFIER_LEN) (b64Encode zid_bob IDENTIFIER_LEN) rec_sample,
      remote_values (b64Encode zid_alice IDENTIFIER_LEN) (b64Encode zid_bob IDENTIFIER_LEN)
        (rec_sample\<lparr>flags := 7\<rparr>)]
   = [remote_values (b64Encode zid_alice IDENTIFIER_LEN) (b64Encode zid_bob IDENTIFIER_LEN) rec_sample,
      remote_values (b64Encode zid_alice IDENTIFIER_LEN) (b64Encode zid_bob IDENTIFIER_LEN)
        (rec_sample\<lparr>flags := 7\<rparr>)]"
  by (simp add: selectZrtpIdRemoteAll_def remote_key_def remote_values_def)

theorem read_duplicate_key_witness:
  "fst (readRemoteZidRecord cache_duplicate zid_alice zid_bob rec_sample) = 1 \<and>
   snd (snd (readRemoteZidRecord cache_duplicate zid_alice zid_bob rec_sample)) =
     Some (MoreThanOneRemoteZid 2)"
proof -
  have tab: "zrtpIdRemote cache_duplicate = Some
     [remote_values (b64Encode zid_alice IDENTIFIER_LEN) (b64Encode zid_bob IDENTIFIER_LEN) rec_sample,
      remote_values (b64Encode zid_alice IDENTIFIER_LEN) (b64Encode zid_bob IDENTIFIER_LEN)
        (rec_sample\<lparr>flags := 7\<rparr>)]"
    by (simp add: cache_duplicate_eq)
  from read_duplicate_key [OF tab, of zid_alice zid_bob rec_sample] show ?thesis
    by (simp add: cache_duplicate_select)
qed

text \<open>
  C10. When more than one row matches the key, \<open>readRemoteZidRecord\<close> returns the error
  code 1 and the caller's record is not left as it was passed in: each of the eleven
  fields that the read fills holds the decoded column of the last matching row (the
  integer columns through \<open>sqlite3_column_int\<close>, the blobs cut to \<open>RS_LENGTH\<close> bytes,
  the timestamps through \<open>strftime\<close> and \<open>sqlite3_column_int64\<close>), and only the
  identifier is still the caller's. If that row was written from a record with full
  arrays and timestamps in the engine's range, the caller's record has become that record.
\<close>

theorem read_duplicate_overwrites_output:
  assumes "zrtpIdRemote db = Some rows"
    and "1 < length (selectZrtpIdRemoteAll (b64Encode remoteZid IDENTIFIER_LEN)
                (b64Encode localZid IDENTIFIER_LEN) rows)"
  shows "let row = last (selectZrtpIdRemoteAll (b64Encode remoteZid IDENTIFIER_LEN)
                     (b64Encode localZid IDENTIFIER_LEN) rows);
             out = fst (snd (readRemoteZidRecord db remoteZid localZid remZid))
         in fst (readRemoteZidRecord db remoteZid localZid remZid) = 1 \<and>
            flags out = sqlite3_column_int (rem_flags row) \<and>
            rs1 out = take RS_LENGTH (rem_rs1 row) \<and>
            rs1LastUse out = sqlite3_column_int64 (strftime_s_unixepoch (rem_rs1LastUsed row)) \<and>
            rs1Ttl out = sqlite3_column_int64 (strftime_s_unixepoch (rem_rs1TimeToLive row)) \<and>
            rs2 out = take RS_LENGTH (rem_rs2 row) \<and>
            rs2LastUse out = sqlite3_column_int64 (strftime_s_unixepoch (rem_rs2LastUsed row)) \<and>
            rs2Ttl out = sqlite3_column_int64 (strftime_s_unixepoch (rem_rs2TimeToLive row)) \<and>
            mitmKey out = take RS_LENGTH (rem_mitmKey row) \<and>
            mitmLastUse out = sqlite3_column_int64 (strftime_s_unixepoch (rem_mitmLastUsed row)) \<and>
            secureSince out = sqlite3_column_int64 (strftime_s_unixepoch (rem_secureSince row)) \<and>
            preshCounter out = sqlite3_column_int (rem_preshCounter row) \<and>
            identifier_zid out = identifier_zid remZid \<and>
            (row = remote_values (b64Encode remoteZid IDENTIFIER_LEN)
                     (b64Encode localZid IDENTIFIER_LEN) r \<and>
             remote_arrays_full r \<and> remote_timestamps_in_range r \<longrightarrow>
             out = r\<lparr>identifier_zid := identifier_zid remZid\<rparr>)"
proof -
  let ?ms = "selectZrtpIdRemoteAll (b64Encode remoteZid IDENTIFIER_LEN)
                     (b64Encode localZid IDENTIFIER_LEN) rows"
  have rd: "readRemoteZidRecord db remoteZid localZid remZid =
      (1, remote_columns (last ?ms) remZid, Some (MoreThanOneRemoteZid (int (length ?ms))))"
    using assms by (auto simp: readRemoteZidRecord_table Let_def)
  have fields: "flags (remote_columns (last ?ms) remZid) = sqlite3_column_int (rem_flags (last ?ms))"
    "rs1 (remote_columns (last ?ms) remZid) = take RS_LENGTH (rem_rs1 (last ?ms))"
    "rs1LastUse (remote_columns (last ?ms) remZid) =
       sqlite3_column_int64 (strftime_s_unixepoch (rem_rs1LastUsed (last ?ms)))"
    "rs1Ttl (remote_columns (last ?ms) remZid) =
       sqlite3_column_int64 (strftime_s_unixepoch (rem_rs1TimeToLive (last ?ms)))"
    "rs2 (remote_columns (last ?ms) remZid) = take RS_LENGTH (rem_rs2 (last ?ms))"
    "rs2LastUse (remote_columns (last ?ms) remZid) =
       sqlite3_column_int64 (strftime_s_unixepoch (rem_rs2LastUsed (last ?ms)))"
    "rs2Ttl (remote_columns (last ?ms) remZid) =
       sqlite3_column_int64 (strftime_s_unixepoch (rem_rs2TimeToLive (last ?ms)))"
    "mitmKey (remote_columns (last ?ms) remZid) = take RS_LENGTH (rem_mitmKey (last ?ms))"
    "mitmLastUse (remote_columns (last ?ms) remZid) =
       sqlite3_column_int64 (strftime_s_unixepoch (rem_mitmLastUsed (last ?ms)))"
    "secureSince (remote_columns (last ?ms) remZid) =
       sqlite3_column_int64 (strftime_s_unixepoch (rem_secureSince (last ?ms)))"
    "preshCounter (remote_columns (last ?ms) remZid) = sqlite3_column_int (rem_preshCounter (last ?ms))"
    "identifier_zid (remote_columns (last ?ms) remZid) = identifier_zid remZid"
    by (simp_all add: remote_columns_def)
  have whole: "remote_columns (last ?ms) remZid = r\<lparr>identifier_zid := identifier_zid remZid\<rparr>"
    if "last ?ms = remote_values (b64Encode remoteZid IDENTIFIER_LEN)
                     (b64Encode localZid IDENTIFIER_LEN) r"
      and "remote_arrays_full r" and "remote_timestamps_in_range r"
    using that by (simp add: remote_columns_values)
  from fields whole show ?thesis
    unfolding Let_def rd by simp
qed

theorem read_duplicate_overwrites_output_witness:
  "1 < length (selectZrtpIdRemoteAll (b64Encode zid_alice IDENTIFIER_LEN)
         (b64Encode zid_bob IDENTIFIER_LEN)
         [remote_values (b64Encode zid_alice IDENTIFIER_LEN) (b64Encode zid_bob IDENTIFIER_LEN) rec_sample,
          remote_values (b64Encode zid_alice IDENTIFIER_LEN) (b64Encode zid_bob IDENTIFIER_LEN)
            (rec_sample\<lparr>flags := 7\<rparr>)]) \<and>
   remote_arrays_full (rec_sample\<lparr>flags := 7\<rparr>) \<and>
   remote_timestamps_in_range (rec_sample\<lparr>flags := 7\<rparr>) \<and>
   fst (readRemoteZidRecord cache_duplicate zid_alice zid_bob rec_blank) = 1 \<and>
   fst (snd (readRemoteZidRecord cache_duplicate zid_alice zid_bob rec_blank))
     = rec_sample\<lparr>flags := 7, identifier_zid := zid_bob\<rparr> \<and>
   flags (fst (snd (readRemoteZidRecord cache_duplicate zid_alice zid_bob rec_blank))) = 7 \<and>
   flags rec_blank = 85 \<and>
   rs1 (fst (snd (readRemoteZidRecord cache_duplicate zid_alice zid_bob rec_blank))) = replicate 32 17 \<and>
   rs1 rec_blank = replicate 32 238 \<and>
   secureSince (fst (snd (readRemoteZidRecord cache_duplicate zid_alice zid_bob rec_blank)))
     = 1500000000 \<and>
   secureSince rec_blank = 16"
proof -
  have tab: "zrtpIdRemote cache_duplicate = Some
     [remote_values (b64Encode zid_alice IDENTIFIER_LEN) (b64Encode zid_bob IDENTIFIER_LEN) rec_sample,
      remote_values (b64Encode zid_alice IDENTIFIER_LEN) (b64Encode zid_bob IDENTIFIER_LEN)
        (rec_sample\<lparr>flags := 7\<rparr>)]"
    by (simp add: cache_duplicate_eq)
  have two: "1 < length (selectZrtpIdRemoteAll (b64Encode zid_alice IDENTIFIER_LEN)
         (b64Encode zid_bob IDENTIFIER_LEN)
         [remote_values (b64Encode zid_alice IDENTIFIER_LEN) (b64Encode zid_bob IDENTIFIER_LEN) rec_sample,
          remote_values (b64Encode zid_alice IDENTIFIER_LEN) (b64Encode zid_bob IDENTIFIER_LEN)
            (rec_sample\<lparr>flags := 7\<rparr>)])"
    by (simp add: cache_duplicate_select)
  have ok: "remote_arrays_full (rec_sample\<lparr>flags := 7\<rparr>)"
    "remote_timestamps_in_range (rec_sample\<lparr>flags := 7\<rparr>)"
    using rec_sample_ok by (simp_all add: remote_arrays_full_def remote_timestamps_in_range_def)
  have whole: "fst (readRemoteZidRecord cache_duplicate zid_alice zid_bob rec_blank) = 1 \<and>
      fst (snd (readRemoteZidRecord cache_duplicate zid_alice zid_bob rec_blank))
        = rec_sample\<lparr>flags := 7, identifier_zid := zid_bob\<rparr>"
    using read_duplicate_overwrites_output [OF tab two, of rec_blank "rec_sample\<lparr>flags := 7\<rparr>"] ok
    by (simp add: Let_def cache_duplicate_select rec_blank_def)
  from whole two ok show ?thesis
    by (simp add: rec_sample_def rec_blank_def)
qed

subsection \<open>Peer-secret records: update\<close>

lemma updateRemoteZidRecord_table:
  assumes "zrtpIdRemote db = Some rows"
  shows "updateRemoteZidRecord db remoteZid localZid r =
     (SQLITE_OK,
      db\<lparr>zrtpIdRemote := Some (map (\<lambda>row.
         if remote_key (b64Encode remoteZid IDENTIFIER_LEN) (b64Encode localZid IDENTIFIER_LEN) row
         then remote_values (rem_remoteZid row) (rem_localZid row) r else row) rows)\<rparr>,
      None)"
  using assms by (simp add: updateRemoteZidRecord_def)

lemma select_after_update_same_key:
  "selectZrtpIdRemoteAll k1 k2 (map (\<lambda>row.
       if remote_key k1 k2 row then remote_values (rem_remoteZid row) (rem_localZid row) r
       else row) rows)
   = map (\<lambda>row. remote_values k1 k2 r) (selectZrtpIdRemoteAll k1 k2 rows)"
  by (induction rows) (auto simp: selectZrtpIdRemoteAll_def remote_key_def remote_values_def)

lemma select_after_update_other_key:
  "(k1', k2') \<noteq> (k1, k2) \<Longrightarrow>
   selectZrtpIdRemoteAll k1' k2' (map (\<lambda>row.
       if remote_key k1 k2 row then remote_values (rem_remoteZid row) (rem_localZid row) r
       else row) rows)
   = selectZrtpIdRemoteAll k1' k2' rows"
  by (induction rows) (auto simp: selectZrtpIdRemoteAll_def remote_key_def remote_values_def)

lemma updateRemoteZidRecord_no_row:
  assumes "zrtpIdRemote db = Some rows"
    and "\<forall>row \<in> set rows. \<not> remote_key (b64Encode remoteZid IDENTIFIER_LEN)
           (b64Encode localZid IDENTIFIER_LEN) row"
  shows "updateRemoteZidRecord db remoteZid localZid r = (SQLITE_OK, db, None)"
proof -
  from assms(2) have "map (\<lambda>row.
         if remote_key (b64Encode remoteZid IDENTIFIER_LEN) (b64Encode localZid IDENTIFIER_LEN) row
         then remote_values (rem_remoteZid row) (rem_localZid row) r else row) rows = rows"
    by (induction rows) simp_all
  moreover from assms(1) have "db\<lparr>zrtpIdRemote := Some rows\<rparr> = db" by simp
  ultimately show ?thesis
    using updateRemoteZidRecord_table [OF assms(1), of remoteZid localZid r] by simp
qed

text \<open>
  C9 (as amended). \<open>updateRemoteZidRecord\<close> returns \<open>SQLITE_OK\<close> whenever the peer table
  exists. If exactly one row matches the key, and the record's arrays are full and its
  timestamps lie in the engine's range of dates, a read of the key after the update
  returns the updated record in every field that the read fills. For every other key pair
  the read returns the same result after the update as before it: rows under other keys
  are not touched.
\<close>

theorem update_then_read:
  assumes "zrtpIdRemote db = Some rows"
  shows "fst (updateRemoteZidRecord db remoteZid localZid r) = SQLITE_OK \<and>
     (length (selectZrtpIdRemoteAll (b64Encode remoteZid IDENTIFIER_LEN)
         (b64Encode localZid IDENTIFIER_LEN) rows) = 1 \<and>
      remote_arrays_full r \<and> remote_timestamps_in_range r \<longrightarrow>
      readRemoteZidRecord (fst (snd (updateRemoteZidRecord db remoteZid localZid r)))
        remoteZid localZid out
      = (SQLITE_OK, r\<lparr>identifier_zid := identifier_zid out\<rparr>, None)) \<and>
     (length remoteZid = IDENTIFIER_LEN \<and> length localZid = IDENTIFIER_LEN \<and>
      length remoteZid' = IDENTIFIER_LEN \<and> length localZid' = IDENTIFIER_LEN \<and>
      (remoteZid', localZid') \<noteq> (remoteZid, localZid) \<longrightarrow>
      readRemoteZidRecord (fst (snd (updateRemoteZidRecord db remoteZid localZid r)))
        remoteZid' localZid' out'
      = readRemoteZidRecord db remoteZid' localZid' out')"
proof -
  let ?k1 = "b64Encode remoteZid IDENTIFIER_LEN" and ?k2 = "b64Encode localZid IDENTIFIER_LEN"
  let ?rows' = "map (\<lambda>row. if remote_key ?k1 ?k2 row
         then remote_values (rem_remoteZid row) (rem_localZid row) r else row) rows"
  let ?db' = "db\<lparr>zrtpIdRemote := Some ?rows'\<rparr>"
  have upd: "updateRemoteZidRecord db remoteZid localZid r = (SQLITE_OK, ?db', None)"
    by (rule updateRemoteZidRecord_table [OF assms])
  have tab': "zrtpIdRemote ?db' = Some ?rows'" by simp
  have one: "readRemoteZidRecord ?db' remoteZid localZid out
      = (SQLITE_OK, r\<lparr>identifier_zid := identifier_zid out\<rparr>, None)"
    if "length (selectZrtpIdRemoteAll ?k1 ?k2 rows) = 1"
      and "remote_arrays_full r" and "remote_timestamps_in_range r"
  proof -
    from that(1) obtain row where "selectZrtpIdRemoteAll ?k1 ?k2 rows = [row]"
      by (cases "selectZrtpIdRemoteAll ?k1 ?k2 rows") auto
    then have "selectZrtpIdRemoteAll ?k1 ?k2 ?rows' = [remote_values ?k1 ?k2 r]"
      by (simp add: select_after_update_same_key)
    then show ?thesis
      by (simp add: readRemoteZidRecord_table [OF tab'] remote_columns_values [OF that(2,3)])
  qed
  have other: "readRemoteZidRecord ?db' remoteZid' localZid' out'
      = readRemoteZidRecord db remoteZid' localZid' out'"
    if "length remoteZid = IDENTIFIER_LEN" "length localZid = IDENTIFIER_LEN"
      "length remoteZid' = IDENTIFIER_LEN" "length localZid' = IDENTIFIER_LEN"
      "(remoteZid', localZid') \<noteq> (remoteZid, localZid)"
  proof -
    from that have "(b64Encode remoteZid' IDENTIFIER_LEN, b64Encode localZid' IDENTIFIER_LEN)
        \<noteq> (?k1, ?k2)"
      by (auto simp: b64Encode_inj)
    then have "selectZrtpIdRemoteAll (b64Encode remoteZid' IDENTIFIER_LEN)
          (b64Encode localZid' IDENTIFIER_LEN) ?rows'
        = selectZrtpIdRemoteAll (b64Encode remoteZid' IDENTIFIER_LEN)
          (b64Encode localZid' IDENTIFIER_LEN) rows"
      by (rule select_after_update_other_key)
    then show ?thesis by (simp add: readRemoteZidRecord_table [OF tab'] readRemoteZidRecord_table [OF assms])
  qed
  from upd one other show ?thesis by simp
qed

text \<open>
  The claim C9 as stated, for every key pair, fails where no row matches the key: the
  update changes nothing and still returns \<open>SQLITE_OK\<close>, and the read that follows gives
  \<open>flags = 0\<close> and leaves the other fields of the caller's record as they were, while
  the record handed to the update has \<open>flags = 1\<close> and \<open>preshCounter = 3\<close>.
\<close>

theorem update_then_read_counterexample:
  "fst (updateRemoteZidRecord fresh_cache zid_alice zid_bob rec_sample) = SQLITE_OK \<and>
   readRemoteZidRecord (fst (snd (updateRemoteZidRecord fresh_cache zid_alice zid_bob rec_sample)))
     zid_alice zid_bob (rec_sample\<lparr>flags := 5, preshCounter := 0\<rparr>)
   = (SQLITE_OK, rec_sample\<lparr>flags := 0, preshCounter := 0\<rparr>, None) \<and>
   flags rec_sample = 1 \<and> preshCounter rec_sample = 3"
  by (simp add: updateRemoteZidRecord_def readRemoteZidRecord_def fresh_cache_eq
      selectZrtpIdRemoteAll_def rec_sample_def)


theorem update_then_read_witness:
  "fst (updateRemoteZidRecord cache_one_peer zid_bob zid_alice (rec_sample\<lparr>flags := 9\<rparr>)) = SQLITE_OK \<and>
   readRemoteZidRecord
     (fst (snd (updateRemoteZidRecord cache_one_peer zid_bob zid_alice (rec_sample\<lparr>flags := 9\<rparr>))))
     zid_bob zid_alice rec_sample
   = (SQLITE_OK, rec_sample\<lparr>flags := 9\<rparr>, None) \<and>
   readRemoteZidRecord
     (fst (snd (updateRemoteZidRecord cache_one_peer zid_bob zid_alice (rec_sample\<lparr>flags := 9\<rparr>))))
     zid_alice zid_bob rec_sample
   = readRemoteZidRecord cache_one_peer zid_alice zid_bob rec_sample"
proof -
  have tab: "zrtpIdRemote cache_one_peer = Some
     [remote_values (b64Encode zid_bob IDENTIFIER_LEN) (b64Encode zid_alice IDENTIFIER_LEN) rec_sample]"
    by (simp add: cache_one_peer_eq)
  have one: "length (selectZrtpIdRemoteAll (b64Encode zid_bob IDENTIFIER_LEN)
      (b64Encode zid_alice IDENTIFIER_LEN)
      [remote_values (b64Encode zid_bob IDENTIFIER_LEN) (b64Encode zid_alice IDENTIFIER_LEN)
         rec_sample]) = 1"
    by (simp add: selectZrtpIdRemoteAll_def remote_key_def remote_values_def)
  have ok: "remote_arrays_full (rec_sample\<lparr>flags := 9\<rparr>)"
    "remote_timestamps_in_range (rec_sample\<lparr>flags := 9\<rparr>)"
    using rec_sample_ok by (simp_all add: remote_arrays_full_def remote_timestamps_in_range_def)
  have differ: "(zid_alice, zid_bob) \<noteq> (zid_bob, zid_alice)"
    by (simp add: zid_alice_def zid_bob_def)
  from update_then_read [OF tab, of zid_bob zid_alice "rec_sample\<lparr>flags := 9\<rparr>" rec_sample
      zid_alice zid_bob rec_sample] one ok differ length_zids
  show ?thesis by simp
qed

subsection \<open>Enumeration in descending order of secureSince\<close>

lemma mset_insert_desc: "mset (insert_desc row rows) = add_mset row (mset rows)"
  by (induction rows) auto

lemma mset_order_by: "mset (order_by_secureSince_desc rows) = mset rows"
  by (induction rows) (simp_all add: order_by_secureSince_desc_def mset_insert_desc)

lemma sql_le_total: "sql_le a b \<or> sql_le b a"
  by (cases a; cases b) auto

lemma sql_le_trans: "sql_le a b \<Longrightarrow> sql_le b c \<Longrightarrow> sql_le a c"
  by (cases a; cases b; cases c) auto

lemma set_insert_desc: "set (insert_desc row rows) = insert row (set rows)"
  by (induction rows) auto

lemma sorted_insert_desc:
  "sorted_wrt (\<lambda>x y. sql_le (rem_secureSince y) (rem_secureSince x)) rows \<Longrightarrow>
   sorted_wrt (\<lambda>x y. sql_le (rem_secureSince y) (rem_secureSince x)) (insert_desc row rows)"
proof (induction rows)
  case Nil
  then show ?case by simp
next
  case (Cons y ys)
  show ?case
  proof (cases "sql_le (rem_secureSince y) (rem_secureSince row)")
    case True
    with Cons.prems show ?thesis by (auto intro: sql_le_trans)
  next
    case False
    then have "sql_le (rem_secureSince row) (rem_secureSince y)"
      using sql_le_total by blast
    with False Cons show ?thesis by (auto simp: set_insert_desc)
  qed
qed

lemma sorted_order_by:
  "sorted_wrt (\<lambda>x y. sql_le (rem_secureSince y) (rem_secureSince x)) (order_by_secureSince_desc rows)"
  by (induction rows) (simp_all add: order_by_secureSince_desc_def sorted_insert_desc)

lemma three_sorted_unique:
  assumes "mset xs = {#a, b, c#}"
    and "sorted_wrt (\<lambda>x y. sql_le (rem_secureSince y) (rem_secureSince x)) xs"
    and "rem_secureSince a = Some ta" "rem_secureSince b = Some tb" "rem_secureSince c = Some tc"
    and "ta < tb" "tb < tc"
  shows "xs = [c, b, a]"
proof -
  from assms(3-7) have abc: "a \<noteq> b" "b \<noteq> c" "a \<noteq> c" by auto
  have m: "mset xs = mset [c, b, a]" using assms(1) by (simp add: add_mset_commute)
  from abc have "distinct [c, b, a]" by auto
  with m have dist: "distinct xs" by (metis mset_eq_imp_distinct_iff)
  from m have "length xs = length [c, b, a]" by (rule mset_eq_length)
  then obtain x y z where xs: "xs = [x, y, z]"
    by (cases xs; cases "tl xs"; cases "tl (tl xs)") auto
  from m have "set xs = set [c, b, a]" by (rule mset_eq_setD)
  with xs have st: "{x, y, z} = {a, b, c}" by auto
  then have mem: "x = a \<or> x = b \<or> x = c" "y = a \<or> y = b \<or> y = c" "z = a \<or> z = b \<or> z = c"
    by blast+
  from st have cov: "a = x \<or> a = y \<or> a = z" "b = x \<or> b = y \<or> b = z" "c = x \<or> c = y \<or> c = z"
    by blast+
  from dist xs have d: "x \<noteq> y" "y \<noteq> z" "x \<noteq> z" by auto
  from assms(2) xs have ord: "sql_le (rem_secureSince y) (rem_secureSince x)"
    "sql_le (rem_secureSince z) (rem_secureSince y)"
    by auto
  have top: "w = c" if "w = a \<or> w = b \<or> w = c" "sql_le (Some tc) (rem_secureSince w)" for w
    using that assms(3-7) by auto
  have bot: "w = a" if "w = a \<or> w = b \<or> w = c" "sql_le (rem_secureSince w) (Some ta)" for w
    using that assms(3-7) by auto
  have xc: "x = c"
  proof (rule ccontr)
    assume n: "x \<noteq> c"
    with cov(3) consider "c = y" | "c = z" by blast
    then show False
    proof cases
      case 1
      with ord(1) assms(5) have "x = c" using top [OF mem(1)] by simp
      with n show False by simp
    next
      case 2
      with ord(2) assms(5) have "y = c" using top [OF mem(2)] by simp
      with 2 d show False by simp
    qed
  qed
  have za: "z = a"
  proof (rule ccontr)
    assume n: "z \<noteq> a"
    with cov(1) consider "a = x" | "a = y" by blast
    then show False
    proof cases
      case 1
      with ord(1) assms(3) have "y = a" using bot [OF mem(2)] by simp
      with 1 d show False by simp
    next
      case 2
      with ord(2) assms(3) have "z = a" using bot [OF mem(3)] by simp
      with n show False by simp
    qed
  qed
  from cov(2) xc za abc have "y = b" by auto
  with xc za xs show ?thesis by simp
qed

lemma sqlite3_step_Prepared:
  "zrtpIdRemote db = Some rows \<Longrightarrow>
   sqlite3_step db Prepared =
     (case order_by_secureSince_desc rows of [] \<Rightarrow> Done | row # rest \<Rightarrow> Row row (Stepping rest))"
  by (simp add: sqlite3_step_def)

lemma readNextZidRecord_row:
  assumes "sqlite3_step db st = Row (remote_values (b64Encode z IDENTIFIER_LEN) k r) st'"
    and "remote_arrays_full r" "remote_timestamps_in_range r"
    and "length z = IDENTIFIER_LEN" "length (identifier_zid out) = IDENTIFIER_LEN"
  shows "readNextZidRecord db (Some st) out =
           Some (Some st', r\<lparr>identifier_zid := z\<rparr>, None, statement_started db st)"
  using assms
  by (simp add: readNextZidRecord_def remote_columns_values b64Decode_b64Encode write_bytes_def
      remote_values_def [of "b64Encode z IDENTIFIER_LEN" k r, THEN arg_cong [of _ _ rem_remoteZid]])

text \<open>
  C7 (as amended). Let the peer table hold exactly three rows, in any order, inserted from
  records with full arrays whose timestamps lie in the engine's range of dates and whose
  secure-since values are \<open>t1 < t2 < t3\<close>. Then \<open>prepareReadAllZid\<close> gives a statement,
  and successive calls of \<open>readNextZidRecord\<close> yield the record of \<open>t3\<close>, then of
  \<open>t2\<close>, then of \<open>t1\<close>, each with the remote identifier of its row, and the fourth call
  returns the null statement. The cursor is an active statement of the connection from
  its first record until that last call, after which the connection is as it was before.
  Over an empty peer table the first call already returns the null statement and leaves
  the caller's record and the connection alone.
\<close>

theorem enumeration_descending:
  assumes "zrtpIdRemote db = Some rows"
    and "mset rows =
          {#remote_values (b64Encode z1 IDENTIFIER_LEN) k1 r1,
            remote_values (b64Encode z2 IDENTIFIER_LEN) k2 r2,
            remote_values (b64Encode z3 IDENTIFIER_LEN) k3 r3#}"
    and "remote_arrays_full r1" "remote_arrays_full r2" "remote_arrays_full r3"
    and "remote_timestamps_in_range r1" "remote_timestamps_in_range r2"
        "remote_timestamps_in_range r3"
    and "length z1 = IDENTIFIER_LEN" "length z2 = IDENTIFIER_LEN" "length z3 = IDENTIFIER_LEN"
    and "length (identifier_zid out) = IDENTIFIER_LEN"
    and "sint (secureSince r1) < sint (secureSince r2)"
    and "sint (secureSince r2) < sint (secureSince r3)"
    and "zrtpIdRemote db0 = Some []"
  shows "prepareReadAllZid db = (Some Prepared, None) \<and>
     readNextZidRecord db (Some Prepared) out =
       Some (Some (Stepping [remote_values (b64Encode z2 IDENTIFIER_LEN) k2 r2,
                             remote_values (b64Encode z1 IDENTIFIER_LEN) k1 r1]),
             r3\<lparr>identifier_zid := z3\<rparr>, None,
             db\<lparr>active_statements := active_statements db + 1\<rparr>) \<and>
     readNextZidRecord (db\<lparr>active_statements := active_statements db + 1\<rparr>)
       (Some (Stepping [remote_values (b64Encode z2 IDENTIFIER_LEN) k2 r2,
                        remote_values (b64Encode z1 IDENTIFIER_LEN) k1 r1]))
       (r3\<lparr>identifier_zid := z3\<rparr>) =
       Some (Some (Stepping [remote_values (b64Encode z1 IDENTIFIER_LEN) k1 r1]),
             r2\<lparr>identifier_zid := z2\<rparr>, None,
             db\<lparr>active_statements := active_statements db + 1\<rparr>) \<and>
     readNextZidRecord (db\<lparr>active_statements := active_statements db + 1\<rparr>)
       (Some (Stepping [remote_values (b64Encode z1 IDENTIFIER_LEN) k1 r1]))
       (r2\<lparr>identifier_zid := z2\<rparr>) =
       Some (Some (Stepping []), r1\<lparr>identifier_zid := z1\<rparr>, None,
             db\<lparr>active_statements := active_statements db + 1\<rparr>) \<and>
     readNextZidRecord (db\<lparr>active_statements := active_statements db + 1\<rparr>)
       (Some (Stepping [])) (r1\<lparr>identifier_zid := z1\<rparr>) =
       Some (None, r1\<lparr>identifier_zid := z1\<rparr>, None, db) \<and>
     prepareReadAllZid db0 = (Some Prepared, None) \<and>
     readNextZidRecord db0 (Some Prepared) out = Some (None, out, None, db0)"
proof -
  let ?row1 = "remote_values (b64Encode z1 IDENTIFIER_LEN) k1 r1"
  let ?row2 = "remote_values (b64Encode z2 IDENTIFIER_LEN) k2 r2"
  let ?row3 = "remote_values (b64Encode z3 IDENTIFIER_LEN) k3 r3"
  have key1: "rem_secureSince ?row1 = Some (sint (secureSince r1))"
    using assms(6) by (simp add: remote_values_def remote_timestamps_in_range_def
        stored_in_range bind_int64_def)
  have key2: "rem_secureSince ?row2 = Some (sint (secureSince r2))"
    using assms(7) by (simp add: remote_values_def remote_timestamps_in_range_def
        stored_in_range bind_int64_def)
  have key3: "rem_secureSince ?row3 = Some (sint (secureSince r3))"
    using assms(8) by (simp add: remote_values_def remote_timestamps_in_range_def
        stored_in_range bind_int64_def)
  have "mset (order_by_secureSince_desc rows) = {#?row1, ?row2, ?row3#}"
    using assms(2) by (simp add: mset_order_by)
  then have sorted: "order_by_secureSince_desc rows = [?row3, ?row2, ?row1]"
    using sorted_order_by key1 key2 key3 assms(13,14) by (rule three_sorted_unique)
  have prep: "prepareReadAllZid db = (Some Prepared, None)"
    using assms(1) by (simp add: prepareReadAllZid_def)
  have step1: "sqlite3_step db Prepared = Row ?row3 (Stepping [?row2, ?row1])"
    using assms(1) sorted by (simp add: sqlite3_step_Prepared)
  let ?db1 = "db\<lparr>active_statements := active_statements db + 1\<rparr>"
  have step2: "sqlite3_step ?db1 (Stepping [?row2, ?row1]) = Row ?row2 (Stepping [?row1])"
    by (simp add: sqlite3_step_def)
  have step3: "sqlite3_step ?db1 (Stepping [?row1]) = Row ?row1 (Stepping [])"
    by (simp add: sqlite3_step_def)
  have n1: "readNextZidRecord db (Some Prepared) out =
      Some (Some (Stepping [?row2, ?row1]), r3\<lparr>identifier_zid := z3\<rparr>, None, ?db1)"
    using readNextZidRecord_row [OF step1 assms(5,8,11,12)]
    by (simp add: statement_started_def)
  have n2: "readNextZidRecord ?db1 (Some (Stepping [?row2, ?row1])) (r3\<lparr>identifier_zid := z3\<rparr>) =
      Some (Some (Stepping [?row1]), r2\<lparr>identifier_zid := z2\<rparr>, None, ?db1)"
    using readNextZidRecord_row [OF step2 assms(4,7,10), of "r3\<lparr>identifier_zid := z3\<rparr>"] assms(11)
    by (simp add: statement_started_def)
  have n3: "readNextZidRecord ?db1 (Some (Stepping [?row1])) (r2\<lparr>identifier_zid := z2\<rparr>) =
      Some (Some (Stepping []), r1\<lparr>identifier_zid := z1\<rparr>, None, ?db1)"
    using readNextZidRecord_row [OF step3 assms(3,6,9), of "r2\<lparr>identifier_zid := z2\<rparr>"] assms(10)
    by (simp add: statement_started_def)
  have n4: "readNextZidRecord ?db1 (Some (Stepping [])) (r1\<lparr>identifier_zid := z1\<rparr>) =
      Some (None, r1\<lparr>identifier_zid := z1\<rparr>, None, db)"
    by (simp add: readNextZidRecord_def sqlite3_step_def sqlite3_finalize_def)
  have e1: "prepareReadAllZid db0 = (Some Prepared, None)"
    using assms(15) by (simp add: prepareReadAllZid_def)
  have e2: "readNextZidRecord db0 (Some Prepared) out = Some (None, out, None, db0)"
    using assms(15)
    by (simp add: readNextZidRecord_def sqlite3_step_def order_by_secureSince_desc_def
        sqlite3_finalize_def)
  from prep n1 n2 n3 n4 e1 e2 show ?thesis by simp
qed


lemma rec_t_ok:
  "remote_arrays_full rec_t1" "remote_arrays_full rec_t2" "remote_arrays_full rec_t3"
  "remote_timestamps_in_range rec_t1" "remote_timestamps_in_range rec_t2"
  "remote_timestamps_in_range rec_t3"
  by (simp_all add: remote_arrays_full_def remote_timestamps_in_range_def rec_sample_def
      rec_t1_def rec_t2_def rec_t3_def RS_LENGTH_def in_date_range_def)

lemma cache_three_eq:
  "zrtpIdRemote cache_three = Some
     [remote_values (b64Encode zid_alice IDENTIFIER_LEN) (b64Encode zid_bob IDENTIFIER_LEN) rec_t2,
      remote_values (b64Encode zid_bob IDENTIFIER_LEN) (b64Encode zid_alice IDENTIFIER_LEN) rec_t3,
      remote_values (b64Encode zid_alice IDENTIFIER_LEN) (b64Encode zid_alice IDENTIFIER_LEN) rec_t1]"
  by (simp add: cache_three_def insertRemoteZidRecord_def fresh_cache_eq)

theorem enumeration_descending_witness:
  "prepareReadAllZid cache_three = (Some Prepared, None) \<and>
   readNextZidRecord cache_three (Some Prepared) rec_sample =
     Some (Some (Stepping
       [remote_values (b64Encode zid_alice IDENTIFIER_LEN) (b64Encode zid_bob IDENTIFIER_LEN) rec_t2,
        remote_values (b64Encode zid_alice IDENTIFIER_LEN) (b64Encode zid_alice IDENTIFIER_LEN) rec_t1]),
       rec_t3\<lparr>identifier_zid := zid_bob\<rparr>, None,
       cache_three\<lparr>active_statements := active_statements cache_three + 1\<rparr>) \<and>
   readNextZidRecord (cache_three\<lparr>active_statements := active_statements cache_three + 1\<rparr>)
     (Some (Stepping
       [remote_values (b64Encode zid_alice IDENTIFIER_LEN) (b64Encode zid_bob IDENTIFIER_LEN) rec_t2,
        remote_values (b64Encode zid_alice IDENTIFIER_LEN) (b64Encode zid_alice IDENTIFIER_LEN) rec_t1]))
     (rec_t3\<lparr>identifier_zid := zid_bob\<rparr>) =
     Some (Some (Stepping
       [remote_values (b64Encode zid_alice IDENTIFIER_LEN) (b64Encode zid_alice IDENTIFIER_LEN) rec_t1]),
       rec_t2\<lparr>identifier_zid := zid_alice\<rparr>, None,
       cache_three\<lparr>active_statements := active_statements cache_three + 1\<rparr>) \<and>
   readNextZidRecord (cache_three\<lparr>active_statements := active_statements cache_three + 1\<rparr>)
     (Some (Stepping
       [remote_values (b64Encode zid_alice IDENTIFIER_LEN) (b64Encode zid_alice IDENTIFIER_LEN) rec_t1]))
     (rec_t2\<lparr>identifier_zid := zid_alice\<rparr>) =
     Some (Some (Stepping []), rec_t1\<lparr>identifier_zid := zid_alice\<rparr>, None,
       cache_three\<lparr>active_statements := active_statements cache_three + 1\<rparr>) \<and>
   readNextZidRecord (cache_three\<lparr>active_statements := active_statements cache_three + 1\<rparr>)
     (Some (Stepping [])) (rec_t1\<lparr>identifier_zid := zid_alice\<rparr>) =
     Some (None, rec_t1\<lparr>identifier_zid := zid_alice\<rparr>, None, cache_three) \<and>
   readNextZidRecord fresh_cache (Some Prepared) rec_sample =
     Some (None, rec_sample, None, fresh_cache)"
proof -
  have m: "mset
     [remote_values (b64Encode zid_alice IDENTIFIER_LEN) (b64Encode zid_bob IDENTIFIER_LEN) rec_t2,
      remote_values (b64Encode zid_bob IDENTIFIER_LEN) (b64Encode zid_alice IDENTIFIER_LEN) rec_t3,
      remote_values (b64Encode zid_alice IDENTIFIER_LEN) (b64Encode zid_alice IDENTIFIER_LEN) rec_t1]
    = {#remote_values (b64Encode zid_alice IDENTIFIER_LEN) (b64Encode zid_alice IDENTIFIER_LEN) rec_t1,
        remote_values (b64Encode zid_alice IDENTIFIER_LEN) (b64Encode zid_bob IDENTIFIER_LEN) rec_t2,
        remote_values (b64Encode zid_bob IDENTIFIER_LEN) (b64Encode zid_alice IDENTIFIER_LEN) rec_t3#}"
    by simp
  have len: "length (identifier_zid rec_sample) = IDENTIFIER_LEN"
    by (simp add: rec_sample_def IDENTIFIER_LEN_def)
  have lt: "sint (secureSince rec_t1) < sint (secureSince rec_t2)"
    "sint (secureSince rec_t2) < sint (secureSince rec_t3)"
    by (simp_all add: rec_t1_def rec_t2_def rec_t3_def)
  have empty: "zrtpIdRemote fresh_cache = Some []"
    by (simp add: fresh_cache_eq)
  from enumeration_descending [OF cache_three_eq m rec_t_ok length_zids(1) length_zids(1)
      length_zids(2) len lt empty]
  show ?thesis by blast
qed

text \<open>
  The claim C7 as stated, for all secure-since values, fails when the largest value lies
  outside the engine's dates: it is stored as \<open>NULL\<close>, which sorts last under
  \<open>ORDER BY secureSince DESC\<close>. With 1000 < 2000 < 253402300800 the first record the
  cursor yields is the one of 2000.
\<close>

theorem enumeration_descending_counterexample:
  "sint (secureSince rec_t1) < sint (secureSince rec_t2) \<and>
   sint (secureSince rec_t2) < sint (secureSince rec_t3_far) \<and>
   zrtpIdRemote cache_three_far = Some
     [remote_values (b64Encode zid_alice IDENTIFIER_LEN) (b64Encode zid_bob IDENTIFIER_LEN) rec_t2,
      remote_values (b64Encode zid_bob IDENTIFIER_LEN) (b64Encode zid_alice IDENTIFIER_LEN) rec_t3_far,
      remote_values (b64Encode zid_alice IDENTIFIER_LEN) (b64Encode zid_alice IDENTIFIER_LEN) rec_t1] \<and>
   readNextZidRecord cache_three_far (Some Prepared) rec_sample =
     Some (Some (Stepping
       [remote_values (b64Encode zid_alice IDENTIFIER_LEN) (b64Encode zid_alice IDENTIFIER_LEN) rec_t1,
        remote_values (b64Encode zid_bob IDENTIFIER_LEN) (b64Encode zid_alice IDENTIFIER_LEN) rec_t3_far]),
       rec_t2\<lparr>identifier_zid := zid_alice\<rparr>, None,
       cache_three_far\<lparr>active_statements := active_statements cache_three_far + 1\<rparr>) \<and>
   secureSince (rec_t2\<lparr>identifier_zid := zid_alice\<rparr>) \<noteq> secureSince rec_t3_far"
proof -
  let ?row1 = "remote_values (b64Encode zid_alice IDENTIFIER_LEN) (b64Encode zid_alice IDENTIFIER_LEN) rec_t1"
  let ?row2 = "remote_values (b64Encode zid_alice IDENTIFIER_LEN) (b64Encode zid_bob IDENTIFIER_LEN) rec_t2"
  let ?row3 = "remote_values (b64Encode zid_bob IDENTIFIER_LEN) (b64Encode zid_alice IDENTIFIER_LEN) rec_t3_far"
  have tab: "zrtpIdRemote cache_three_far = Some [?row2, ?row3, ?row1]"
    by (simp add: cache_three_far_def insertRemoteZidRecord_def fresh_cache_eq)
  have key1: "rem_secureSince ?row1 = Some 1000"
    by (simp add: remote_values_def rec_t1_def bind_int64_def stored_in_range in_date_range_def)
  have key2: "rem_secureSince ?row2 = Some 2000"
    by (simp add: remote_values_def rec_t2_def bind_int64_def stored_in_range in_date_range_def)
  have key3: "rem_secureSince ?row3 = None"
    by (simp add: remote_values_def rec_t3_far_def bind_int64_def stored_out_of_range
        in_date_range_def)
  have sorted: "order_by_secureSince_desc [?row2, ?row3, ?row1] = [?row2, ?row1, ?row3]"
    by (simp add: order_by_secureSince_desc_def key1 key2 key3)
  have step: "sqlite3_step cache_three_far Prepared = Row ?row2 (Stepping [?row1, ?row3])"
    using tab sorted by (simp add: sqlite3_step_Prepared)
  have len: "length (identifier_zid rec_sample) = IDENTIFIER_LEN"
    by (simp add: rec_sample_def IDENTIFIER_LEN_def)
  have "readNextZidRecord cache_three_far (Some Prepared) rec_sample =
      Some (Some (Stepping [?row1, ?row3]), rec_t2\<lparr>identifier_zid := zid_alice\<rparr>, None,
            cache_three_far\<lparr>active_statements := active_statements cache_three_far + 1\<rparr>)"
    using readNextZidRecord_row [OF step rec_t_ok(2) rec_t_ok(5) length_zids(1) len]
    by (simp add: statement_started_def)
  moreover have "sint (secureSince rec_t1) < sint (secureSince rec_t2)"
    "sint (secureSince rec_t2) < sint (secureSince rec_t3_far)"
    "secureSince (rec_t2\<lparr>identifier_zid := zid_alice\<rparr>) \<noteq> secureSince rec_t3_far"
    by (simp_all add: rec_t1_def rec_t2_def rec_t3_far_def)
  ultimately show ?thesis using tab by simp
qed

subsection \<open>The local identifier and the reset of the cache\<close>





















lemma clearCache_no_cursor:
  "active_statements db = 0 \<Longrightarrow>
   clearCache db =
     (SQLITE_OK, db\<lparr>zrtpIdOwn := Some [], zrtpIdRemote := Some [], zrtpNames := Some []\<rparr>, None)"
  by (simp add: clearCache_def createTables_def initializeRemoteTables_def create_table_def
      drop_table_def SQLITE_DONE_def SQLITE_OK_def Let_def split: option.split)

lemma clearCache_locked:
  "zrtpIdOwn db = Some rows \<Longrightarrow> 0 < active_statements db \<Longrightarrow>
   clearCache db = (SQLITE_ERROR, db, Some (SQLiteError (table_already_exists ''zrtpIdOwn'')))"
  by (simp add: clearCache_def createTables_def create_table_def drop_table_def
      SQLITE_DONE_def SQLITE_ERROR_def Let_def)

lemma clearCache_cursor_open:
  "clearCache cache_cursor_open =
     (SQLITE_ERROR, cache_cursor_open, Some (SQLiteError (table_already_exists ''zrtpIdOwn'')))"
  by (rule clearCache_locked) (simp_all add: cache_cursor_open_def)

lemma clearCache_after_closeStatement:
  "clearCache (closeStatement cache_cursor_open (Some (Stepping []))) =
     (SQLITE_OK, fresh_cache, None)"
proof -
  have idle: "active_statements (closeStatement cache_cursor_open (Some (Stepping []))) = 0"
    by (simp add: closeStatement_def sqlite3_finalize_def cache_cursor_open_def)
  show ?thesis
    using clearCache_no_cursor [OF idle]
    by (simp add: closeStatement_def sqlite3_finalize_def cache_cursor_open_def
        cache_one_peer_eq fresh_cache_eq)
qed





subsection \<open>Peer names: the last-update stamp\<close>

lemma insertZidNameRecord_table:
  assumes "zrtpNames db = Some rows" and "in_date_range (sint now)"
  shows "insertZidNameRecord db now remoteZid localZid accountInfo zidName =
     (SQLITE_OK,
      db\<lparr>zrtpNames := Some (rows @
        [\<lparr>nam_remoteZid = b64Encode remoteZid IDENTIFIER_LEN,
          nam_localZid = b64Encode localZid IDENTIFIER_LEN,
          nam_flags = bind_int (flagsN zidName),
          nam_lastUpdate = Some (sint now),
          nam_accountInfo = (case accountInfo of None \<Rightarrow> defaultAccountString | Some a \<Rightarrow> a),
          nam_name = (case name zidName of Some n \<Rightarrow> n | None \<Rightarrow> ''_NO_NAME_'')\<rparr>])\<rparr>,
      None)"
  using assms
  by (simp add: insertZidNameRecord_def stored_in_range bind_int64_def)

lemma updateZidNameRecord_stamps:
  assumes "zrtpNames db = Some rows" and "in_date_range (sint now)"
  shows "fst (updateZidNameRecord db now remoteZid localZid accountInfo zidName) = SQLITE_OK \<and>
     map_option (map nam_lastUpdate)
       (zrtpNames (fst (snd (updateZidNameRecord db now remoteZid localZid accountInfo zidName))))
     = Some (map (\<lambda>row.
          if names_key (b64Encode remoteZid IDENTIFIER_LEN) (b64Encode localZid IDENTIFIER_LEN)
               (case accountInfo of None \<Rightarrow> defaultAccountString | Some a \<Rightarrow> a) row
          then Some (sint now) else nam_lastUpdate row) rows)"
  using assms
  by (simp add: updateZidNameRecord_def stored_in_range bind_int64_def o_def if_distrib cong: if_cong)

text \<open>
  C5. The name store stamps \<open>lastUpdate\<close> with the clock. For two calls of
  \<open>insertZidNameRecord\<close> made at clock readings \<open>s1 \<le> s2\<close> (dates the engine can
  represent), whatever the keys and whatever the records the caller passes, the two new
  rows carry \<open>s1\<close> and \<open>s2\<close> as \<open>lastUpdate\<close>, in this order, so the stored stamps do
  not decrease. \<open>updateZidNameRecord\<close> at clock reading \<open>s2\<close> sets \<open>lastUpdate\<close> of every
  row under the key to \<open>s2\<close> and leaves the stamps of the other rows alone. The record
  type has no field from which a stamp could be taken.
\<close>

theorem name_records_stamped_with_clock:
  assumes "zrtpNames db = Some rows"
    and "in_date_range (sint s1)" and "in_date_range (sint s2)"
    and "sint s1 \<le> sint s2"
  shows "fst (insertZidNameRecord db s1 remoteZid1 localZid1 account1 zidName1) = SQLITE_OK \<and>
     fst (insertZidNameRecord
            (fst (snd (insertZidNameRecord db s1 remoteZid1 localZid1 account1 zidName1)))
            s2 remoteZid2 localZid2 account2 zidName2) = SQLITE_OK \<and>
     map_option (map nam_lastUpdate)
       (zrtpNames (fst (snd (insertZidNameRecord
            (fst (snd (insertZidNameRecord db s1 remoteZid1 localZid1 account1 zidName1)))
            s2 remoteZid2 localZid2 account2 zidName2))))
     = Some (map nam_lastUpdate rows @ [Some (sint s1), Some (sint s2)]) \<and>
     sql_le (Some (sint s1)) (Some (sint s2)) \<and>
     fst (updateZidNameRecord db s2 remoteZid1 localZid1 account1 zidName2) = SQLITE_OK \<and>
     map_option (map nam_lastUpdate)
       (zrtpNames (fst (snd (updateZidNameRecord db s2 remoteZid1 localZid1 account1 zidName2))))
     = Some (map (\<lambda>row.
          if names_key (b64Encode remoteZid1 IDENTIFIER_LEN) (b64Encode localZid1 IDENTIFIER_LEN)
               (case account1 of None \<Rightarrow> defaultAccountString | Some a \<Rightarrow> a) row
          then Some (sint s2) else nam_lastUpdate row) rows)"
proof -
  let ?row1 = "\<lparr>nam_remoteZid = b64Encode remoteZid1 IDENTIFIER_LEN,
          nam_localZid = b64Encode localZid1 IDENTIFIER_LEN,
          nam_flags = bind_int (flagsN zidName1),
          nam_lastUpdate = Some (sint s1),
          nam_accountInfo = (case account1 of None \<Rightarrow> defaultAccountString | Some a \<Rightarrow> a),
          nam_name = (case name zidName1 of Some n \<Rightarrow> n | None \<Rightarrow> ''_NO_NAME_'')\<rparr>"
  let ?db1 = "db\<lparr>zrtpNames := Some (rows @ [?row1])\<rparr>"
  have i1: "insertZidNameRecord db s1 remoteZid1 localZid1 account1 zidName1 =
      (SQLITE_OK, ?db1, None)"
    by (rule insertZidNameRecord_table [OF assms(1,2)])
  have tab1: "zrtpNames ?db1 = Some (rows @ [?row1])" by simp
  note i2 = insertZidNameRecord_table [OF tab1 assms(3), of remoteZid2 localZid2 account2 zidName2]
  have both: "fst (insertZidNameRecord ?db1 s2 remoteZid2 localZid2 account2 zidName2) = SQLITE_OK \<and>
     map_option (map nam_lastUpdate)
       (zrtpNames (fst (snd (insertZidNameRecord ?db1 s2 remoteZid2 localZid2 account2 zidName2))))
     = Some (map nam_lastUpdate rows @ [Some (sint s1), Some (sint s2)])"
    unfolding i2 by simp
  from i1 both assms(4) updateZidNameRecord_stamps [OF assms(1,3)] show ?thesis
    by simp
qed

theorem name_records_stamped_with_clock_witness:
  "in_date_range (sint (1700000000 :: 64 word)) \<and> in_date_range (sint (1700000060 :: 64 word)) \<and>
   sint (1700000000 :: 64 word) \<le> sint (1700000060 :: 64 word) \<and>
   map_option (map nam_lastUpdate)
     (zrtpNames (fst (snd (insertZidNameRecord
          (fst (snd (insertZidNameRecord fresh_cache 1700000000 zid_alice zid_bob None name_sample)))
          1700000060 zid_alice zid_bob (Some ''work'') name_absent))))
   = Some [Some 1700000000, Some 1700000060]"
proof -
  have tab: "zrtpNames fresh_cache = Some []" by (simp add: fresh_cache_eq)
  have r1: "in_date_range (sint (1700000000 :: 64 word))"
    and r2: "in_date_range (sint (1700000060 :: 64 word))"
    by (simp_all add: in_date_range_def)
  have le: "sint (1700000000 :: 64 word) \<le> sint (1700000060 :: 64 word)" by simp
  from name_records_stamped_with_clock [OF tab r1 r2 le, of zid_alice zid_bob None name_sample
      zid_alice zid_bob "Some ''work''" name_absent] r1 r2
  show ?thesis by simp
qed

end
